theory Spec2Isabelle
  imports Complex_Main
begin

section \<open>Numbers, vectors and JS values\<close>

text \<open>
  JavaScript numbers are modelled as real numbers: rounding, infinities and NaN are left
  out, except where a guard of the code tests for them (the \<open>dt\<close> argument below).
  A \<open>THREE.Vector3\<close> is a triple of numbers.
\<close>

type_synonym vec3 = "real \<times> real \<times> real"

definition vadd :: "vec3 \<Rightarrow> vec3 \<Rightarrow> vec3" where
  "vadd a b = (case a of (ax, ay, az) \<Rightarrow> case b of (bx, by, bz) \<Rightarrow> (ax + bx, ay + by, az + bz))"

definition subVectors :: "vec3 \<Rightarrow> vec3 \<Rightarrow> vec3" where
  "subVectors a b = (case a of (ax, ay, az) \<Rightarrow> case b of (bx, by, bz) \<Rightarrow> (ax - bx, ay - by, az - bz))"

definition multiplyScalar :: "vec3 \<Rightarrow> real \<Rightarrow> vec3" where
  "multiplyScalar a s = (case a of (ax, ay, az) \<Rightarrow> (ax * s, ay * s, az * s))"

definition addScaledVector :: "vec3 \<Rightarrow> vec3 \<Rightarrow> real \<Rightarrow> vec3" where
  "addScaledVector a v s = vadd a (multiplyScalar v s)"

definition lengthSq :: "vec3 \<Rightarrow> real" where
  "lengthSq a = (case a of (ax, ay, az) \<Rightarrow> ax * ax + ay * ay + az * az)"

definition vlength :: "vec3 \<Rightarrow> real" where
  "vlength a = sqrt (lengthSq a)"

definition distanceToSquared :: "vec3 \<Rightarrow> vec3 \<Rightarrow> real" where
  "distanceToSquared a b = lengthSq (subVectors a b)"

definition distanceTo :: "vec3 \<Rightarrow> vec3 \<Rightarrow> real" where
  "distanceTo a b = sqrt (distanceToSquared a b)"

text \<open>\<open>Vector3.normalize\<close> divides by \<open>length() || 1\<close>: the zero vector stays zero.\<close>

definition normalize :: "vec3 \<Rightarrow> vec3" where
  "normalize a = (let l = vlength a; k = (if l = 0 then 1 else l)
                  in case a of (ax, ay, az) \<Rightarrow> (ax / k, ay / k, az / k))"

text \<open>\<open>THREE.MathUtils.lerp(x, y, t)\<close> is \<open>(1 - t) * x + t * y\<close>.\<close>

definition lerp :: "real \<Rightarrow> real \<Rightarrow> real \<Rightarrow> real" where
  "lerp x y t = (1 - t) * x + t * y"

text \<open>
  The values a caller can put into the object handed to \<open>fromJSON\<close>, and the tests the
  code makes on them: \<open>typeof v === 'number'\<close> (the value is a \<open>JNum\<close>) and
  \<open>v != null\<close>.
\<close>

datatype jsval = JUndefined | JNull | JBool bool | JNum real | JStr string | JArr "real list"

fun not_nullish :: "jsval \<Rightarrow> bool" where
  "not_nullish JUndefined = False"
| "not_nullish JNull = False"
| "not_nullish v = True"

text \<open>
  The value handed to \<open>update\<close> as \<open>dt\<close>. The code looks at it in two ways only: \<open>!dt\<close>
  in the guard, and as a number (in \<open>dt <= 0\<close>, \<open>dt * 8\<close>, \<open>cooldown - dt\<close> and so on,
  never as an operand of \<open>+\<close>). So besides a number, NaN and a missing argument, it can be
  \<open>null\<close>, a boolean (\<open>Game.animate\<close> passes the nitro flag in this place), the empty
  string, or a non-empty string or array that reads as a number, such as \<open>'0.05'\<close> or
  \<open>[0.05]\<close>. A truthy value that reads as NaN, such as \<open>'abc'\<close>, would pass the guard
  and turn the numbers of the frame into NaN; NaN states are not modelled and such values
  are left out.
\<close>

datatype dt_arg =
    Seconds real
  | NotANumber
  | Missing
  | Null
  | Flag bool
  | EmptyText
  | NumericText real

text \<open>\<open>!dt\<close>.\<close>

fun dt_not :: "dt_arg \<Rightarrow> bool" where
  "dt_not (Seconds t) = (t = 0)"
| "dt_not NotANumber = True"
| "dt_not Missing = True"
| "dt_not Null = True"
| "dt_not (Flag b) = (\<not> b)"
| "dt_not EmptyText = True"
| "dt_not (NumericText x) = False"

text \<open>The number \<open>dt\<close> is read as; \<open>None\<close> is NaN.\<close>

fun dt_number :: "dt_arg \<Rightarrow> real option" where
  "dt_number (Seconds t) = Some t"
| "dt_number NotANumber = None"
| "dt_number Missing = None"
| "dt_number Null = Some 0"
| "dt_number (Flag b) = Some (if b then 1 else 0)"
| "dt_number EmptyText = Some 0"
| "dt_number (NumericText x) = Some x"

text \<open>The guard \<open>!dt || dt <= 0\<close>; a comparison with NaN is false.\<close>

definition dt_rejected :: "dt_arg \<Rightarrow> bool" where
  "dt_rejected dt \<longleftrightarrow> dt_not dt \<or> (case dt_number dt of Some x \<Rightarrow> x \<le> 0 | None \<Rightarrow> False)"

definition dt_value :: "dt_arg \<Rightarrow> real" where
  "dt_value dt = (case dt_number dt of Some x \<Rightarrow> x | None \<Rightarrow> 0)"

text \<open>\<open>dt\<close> is a number, and a positive one.\<close>

definition positive_number :: "dt_arg \<Rightarrow> bool" where
  "positive_number dt = (case dt of Seconds t \<Rightarrow> 0 < t | _ \<Rightarrow> False)"

section \<open>Car (src/cars/Car.js)\<close>

record car_config =
  cfg_maxSpeed :: real
  cfg_acceleration :: real
  cfg_friction :: real
  cfg_steeringPower :: real
  wheelRadius :: real
  mass :: real
  nitroCapacity :: real
  nitroPower :: real
  nitroDrainRate :: real
  nitroRegenRate :: real
  nitroCooldownSec :: real
  collisionRadius :: real

definition default_config :: car_config where
  "default_config = \<lparr> cfg_maxSpeed = 1.4, cfg_acceleration = 0.85, cfg_friction = 0.97,
     cfg_steeringPower = 2.2, wheelRadius = 0.35, mass = 1.0, nitroCapacity = 100,
     nitroPower = 1.6, nitroDrainRate = 30, nitroRegenRate = 5, nitroCooldownSec = 0.75,
     collisionRadius = 2.0 \<rparr>"

text \<open>
  The fields of a \<open>Car\<close> that the simulation reads or writes. \<open>position\<close> is
  \<open>mesh.position\<close>, \<open>meshRotationY\<close> and \<open>meshRotationZ\<close> are \<open>mesh.rotation.y\<close> and
  \<open>mesh.rotation.z\<close>. Wheels, lights, materials and debug helpers are display only and
  are left out.
\<close>

record car =
  config :: car_config
  speed :: real
  maxSpeed :: real
  acceleration :: real
  friction :: real
  rotation :: real
  steeringPower :: real
  driftFactor :: real
  maxHealth :: real
  health :: real
  invulnerable :: bool
  nitroAmount :: real
  nitroCooldown :: real
  progress :: real
  position :: vec3
  meshRotationY :: real
  meshRotationZ :: real
  boundingRadius :: real
  accSmoothed :: real
  lastCollisionTime :: real
  carCameraShake :: real

datatype car_event =
    EvDamage real
  | EvDestroyed
  | EvCollision real
  | EvNitroEmpty
  | EvNitro real
  | EvDrift real

text \<open>The constructor; \<open>createCar\<close> leaves the mesh at the origin, unrotated.\<close>

definition Car_new :: "car_config \<Rightarrow> car" where
  "Car_new cfg = \<lparr> config = cfg, speed = 0, maxSpeed = cfg_maxSpeed cfg,
     acceleration = cfg_acceleration cfg, friction = cfg_friction cfg, rotation = 0,
     steeringPower = cfg_steeringPower cfg, driftFactor = 0, maxHealth = 100, health = 100,
     invulnerable = False, nitroAmount = nitroCapacity cfg, nitroCooldown = 0, progress = 0,
     position = (0, 0, 0), meshRotationY = 0, meshRotationZ = 0,
     boundingRadius = collisionRadius cfg, accSmoothed = 0, lastCollisionTime = 0,
     carCameraShake = 0 \<rparr>"

subsection \<open>Nitro\<close>

definition useNitro :: "real \<Rightarrow> car \<Rightarrow> bool \<times> car \<times> car_event list" where
  "useNitro dt c =
    (if nitroCooldown c > 0 then (False, c, [])
     else if nitroAmount c \<le> 0 then
       (False, c\<lparr>nitroCooldown := nitroCooldownSec (config c)\<rparr>, [EvNitroEmpty])
     else
       let drain = nitroDrainRate (config c) * dt;
           c1 = c\<lparr>nitroAmount := max 0 (nitroAmount c - drain)\<rparr>;
           c2 = (if nitroAmount c1 = 0 then c1\<lparr>nitroCooldown := nitroCooldownSec (config c1)\<rparr>
                 else c1)
       in (True, c2, [EvNitro (nitroAmount c2)]))"

definition regenNitro :: "real \<Rightarrow> car \<Rightarrow> car" where
  "regenNitro dt c =
    (if nitroCooldown c > 0 then c\<lparr>nitroCooldown := max 0 (nitroCooldown c - dt)\<rparr>
     else c\<lparr>nitroAmount := min (nitroCapacity (config c))
                                (nitroAmount c + nitroRegenRate (config c) * dt)\<rparr>)"

subsection \<open>The update, step by step\<close>

text \<open>
  \<open>input.keys\<close>; a missing input, or one without \<open>keys\<close>, is replaced by
  \<open>{ keys: {} }\<close>, where every key reads as not pressed.
\<close>

record keys =
  key_w :: bool
  key_s :: bool
  key_a :: bool
  key_d :: bool
  key_shift :: bool

definition no_keys :: keys where
  "no_keys = \<lparr> key_w = False, key_s = False, key_a = False, key_d = False, key_shift = False \<rparr>"

definition input_keys :: "keys option \<Rightarrow> keys" where
  "input_keys input = (case input of None \<Rightarrow> no_keys | Some k \<Rightarrow> k)"

text \<open>1. Acceleration and braking.\<close>

definition accelerate :: "keys \<Rightarrow> real \<Rightarrow> car \<Rightarrow> car" where
  "accelerate k dt c =
    (let accInput = (if key_w k then 1 else 0);
         brakeInput = (if key_s k then 1 else 0);
         c1 = c\<lparr>accSmoothed := lerp (accSmoothed c) (accInput - brakeInput) (min 1 (dt * 8))\<rparr>
     in if accSmoothed c1 > 0.01 then
          c1\<lparr>speed := speed c1 + acceleration c1 * accSmoothed c1 * dt\<rparr>
        else if accSmoothed c1 < - 0.01 then
          c1\<lparr>speed := speed c1 + acceleration c1 * accSmoothed c1 * dt * 1.5\<rparr>
        else c1)"

text \<open>2. Nitro. The second component tells whether nitro drained in this frame.\<close>

definition nitroStep :: "keys \<Rightarrow> real \<Rightarrow> car \<Rightarrow> car \<times> bool \<times> car_event list" where
  "nitroStep k dt c =
    (let isUsingNitro = (key_shift k \<and> nitroAmount c > 0 \<and> nitroCooldown c \<le> 0)
     in if isUsingNitro then
          (case useNitro dt c of (used, c1, evs) \<Rightarrow>
             if used then
               (c1\<lparr>speed := min (maxSpeed c1 * nitroPower (config c1))
                                 (speed c1 + acceleration c1 * dt * 1.2)\<rparr>, True, evs)
             else (c1, False, evs))
        else (regenNitro dt c, False, []))"

text \<open>3. Speed limiter.\<close>

definition limitSpeed :: "car \<Rightarrow> car" where
  "limitSpeed c =
    (let currentMax = maxSpeed c;
         c1 = (if speed c > currentMax then c\<lparr>speed := currentMax\<rparr> else c)
     in if speed c1 < - currentMax / 2 then c1\<lparr>speed := - currentMax / 2\<rparr> else c1)"

text \<open>4. Friction: \<open>Math.pow(friction, dt * 60 * 0.016)\<close>.\<close>

definition applyFriction :: "real \<Rightarrow> car \<Rightarrow> car" where
  "applyFriction dt c = c\<lparr>speed := speed c * (friction c powr (dt * 60 * 0.016))\<rparr>"

text \<open>5. Steering and drift.\<close>

definition steer :: "keys \<Rightarrow> real \<Rightarrow> car \<Rightarrow> car" where
  "steer k dt c =
    (if \<bar>speed c\<bar> > 0.03 then
       let steerSign = (if speed c > 0 then 1 else - 1);
           steerScale = \<bar>speed c\<bar> / maxSpeed c;
           steerAmount = steeringPower c * dt * steerSign * steerScale
       in if key_a k then
            c\<lparr>rotation := rotation c + steerAmount,
              driftFactor := lerp (driftFactor c) (0.25 * steerScale) (min 1 (dt * 6))\<rparr>
          else if key_d k then
            c\<lparr>rotation := rotation c - steerAmount,
              driftFactor := lerp (driftFactor c) (- 0.25 * steerScale) (min 1 (dt * 6))\<rparr>
          else c\<lparr>driftFactor := lerp (driftFactor c) 0 (min 1 (dt * 6))\<rparr>
     else c\<lparr>driftFactor := lerp (driftFactor c) 0 (min 1 (dt * 8))\<rparr>)"

text \<open>6. The mesh follows the yaw and tilts with the drift.\<close>

definition orientMesh :: "car \<Rightarrow> car" where
  "orientMesh c = c\<lparr>meshRotationY := rotation c,
                     meshRotationZ := driftFactor c * (speed c / max 0.001 (maxSpeed c))\<rparr>"

text \<open>
  8. Movement. \<open>(0, 0, -1)\<close> turned by the mesh quaternion: for the Euler angles
  \<open>(0, y, z)\<close> of the mesh, three.js gives \<open>(- sin y, 0, - cos y)\<close>.
\<close>

definition forward :: "car \<Rightarrow> vec3" where
  "forward c = (- sin (meshRotationY c), 0, - cos (meshRotationY c))"

definition move :: "car \<Rightarrow> car" where
  "move c = c\<lparr>position := addScaledVector (position c) (forward c) (speed c)\<rparr>"

text \<open>9. The drift event.\<close>

definition driftEvents :: "car \<Rightarrow> car_event list" where
  "driftEvents c = (if \<bar>driftFactor c\<bar> > 0.15 then [EvDrift (driftFactor c)] else [])"

text \<open>10. \<open>this.progress = this.progress || 0\<close>.\<close>

definition keepProgress :: "car \<Rightarrow> car" where
  "keepProgress c = c\<lparr>progress := (if progress c = 0 then 0 else progress c)\<rparr>"

text \<open>The state after the speed limiter (steps 1 to 3), with the drain flag.\<close>

definition update_to_limiter :: "keys \<Rightarrow> real \<Rightarrow> car \<Rightarrow> car \<times> bool \<times> car_event list" where
  "update_to_limiter k dt c =
    (case nitroStep k dt (accelerate k dt c) of (c2, draining, evs) \<Rightarrow> (limitSpeed c2, draining, evs))"

definition Car_update :: "keys option \<Rightarrow> dt_arg \<Rightarrow> car \<Rightarrow> car \<times> car_event list" where
  "Car_update input dt_in c =
    (if dt_rejected dt_in then (c, [])
     else
       let dt = dt_value dt_in; k = input_keys input
       in case update_to_limiter k dt c of (c3, draining, evs) \<Rightarrow>
            let c8 = move (orientMesh (steer k dt (applyFriction dt c3)))
            in (keepProgress c8, evs @ driftEvents c8))"

text \<open>A run of frames: each frame brings an input and a time step.\<close>

fun Car_updates :: "car \<Rightarrow> (keys option \<times> dt_arg) list \<Rightarrow> car" where
  "Car_updates c [] = c"
| "Car_updates c ((input, dt) # fs) = Car_updates (fst (Car_update input dt c)) fs"

subsection \<open>Damage and collisions\<close>

definition onDestroyed :: "car \<Rightarrow> car \<times> car_event list" where
  "onDestroyed c = (c\<lparr>health := 0, speed := 0\<rparr>, [EvDestroyed])"

definition applyDamage :: "real \<Rightarrow> car \<Rightarrow> car \<times> car_event list" where
  "applyDamage amount c =
    (if invulnerable c then (c, [])
     else
       let c1 = c\<lparr>health := health c - amount\<rparr>
       in if health c1 \<le> 0 then
            (case onDestroyed c1 of (c2, evs) \<Rightarrow> (c2, EvDamage amount # evs))
          else (c1, [EvDamage amount]))"

definition repair :: "real \<Rightarrow> car \<Rightarrow> car" where
  "repair amount c = c\<lparr>health := min (maxHealth c) (health c + amount)\<rparr>"

text \<open>
  \<open>handleCollisionWithObject(obj, normal, severity)\<close>; \<open>now\<close> is the reading of
  \<open>performance.now()\<close>, in milliseconds.
\<close>

definition handleCollisionWithObject ::
  "real \<Rightarrow> vec3 \<Rightarrow> real \<Rightarrow> car \<Rightarrow> car \<times> car_event list" where
  "handleCollisionWithObject now normal severity c =
    (if now - lastCollisionTime c < 100 then (c, [])
     else
       let c1 = c\<lparr>lastCollisionTime := now\<rparr>;
           impulse = \<bar>speed c1\<bar> * severity
       in case applyDamage (impulse * 10) c1 of (c2, evs) \<Rightarrow>
            let push = multiplyScalar normal (0.8 * severity)
            in (c2\<lparr>position := vadd (position c2) push, speed := speed c2 * (- 0.5),
                   carCameraShake := 0.8\<rparr>, evs @ [EvCollision impulse]))"

definition Car_handleCollisionSimple :: "real \<Rightarrow> vec3 \<Rightarrow> car \<Rightarrow> car \<times> car_event list" where
  "Car_handleCollisionSimple now objPos c =
    (let dir = normalize (subVectors (position c) objPos)
     in handleCollisionWithObject now dir 1 c)"

subsection \<open>Serialization\<close>

text \<open>
  The object \<open>toJSON\<close> returns and \<open>fromJSON\<close> reads. The scalar entries are arbitrary
  JS values, since the code tests their type (\<open>JUndefined\<close> is a missing key). The
  position entry is missing or an array of three numbers, as \<open>Vector3.toArray\<close> writes
  it: other values would leave things that are not numbers in \<open>mesh.position\<close>.
\<close>

record car_json =
  j_position :: "vec3 option"
  j_rotation :: jsval
  j_speed :: jsval
  j_health :: jsval
  j_nitro :: jsval
  j_progress :: jsval

definition empty_car_json :: car_json where
  "empty_car_json = \<lparr> j_position = None, j_rotation = JUndefined, j_speed = JUndefined,
     j_health = JUndefined, j_nitro = JUndefined, j_progress = JUndefined \<rparr>"

definition Car_toJSON :: "car \<Rightarrow> car_json" where
  "Car_toJSON c = \<lparr> j_position = Some (position c), j_rotation = JNum (rotation c),
     j_speed = JNum (speed c), j_health = JNum (health c), j_nitro = JNum (nitroAmount c),
     j_progress = JNum (progress c) \<rparr>"

text \<open>\<open>fromJSON(data = {})\<close>: \<open>None\<close> is the call without an argument.\<close>

definition Car_fromJSON :: "car_json option \<Rightarrow> car \<Rightarrow> car" where
  "Car_fromJSON arg c =
    (let data = (case arg of None \<Rightarrow> empty_car_json | Some d \<Rightarrow> d);
         c1 = (case j_position data of Some p \<Rightarrow> c\<lparr>position := p\<rparr> | None \<Rightarrow> c);
         c2 = (case j_rotation data of JNum x \<Rightarrow> c1\<lparr>rotation := x\<rparr> | _ \<Rightarrow> c1);
         c3 = (case j_speed data of JNum x \<Rightarrow> c2\<lparr>speed := x\<rparr> | _ \<Rightarrow> c2);
         c4 = (case j_health data of JNum x \<Rightarrow> c3\<lparr>health := x\<rparr> | _ \<Rightarrow> c3);
         c5 = (case j_nitro data of JNum x \<Rightarrow> c4\<lparr>nitroAmount := x\<rparr> | _ \<Rightarrow> c4)
     in (case j_progress data of JNum x \<Rightarrow> c5\<lparr>progress := x\<rparr> | _ \<Rightarrow> c5))"

text \<open>The fields \<open>toJSON\<close> does not write.\<close>

definition same_unsaved :: "car \<Rightarrow> car \<Rightarrow> bool" where
  "same_unsaved a b \<longleftrightarrow>
     config a = config b \<and> maxSpeed a = maxSpeed b \<and> acceleration a = acceleration b \<and>
     friction a = friction b \<and> steeringPower a = steeringPower b \<and>
     driftFactor a = driftFactor b \<and> maxHealth a = maxHealth b \<and>
     invulnerable a = invulnerable b \<and> nitroCooldown a = nitroCooldown b \<and>
     meshRotationY a = meshRotationY b \<and> meshRotationZ a = meshRotationZ b \<and>
     boundingRadius a = boundingRadius b \<and> accSmoothed a = accSmoothed b \<and>
     lastCollisionTime a = lastCollisionTime b \<and> carCameraShake a = carCameraShake b"

text \<open>The value a guarded assignment leaves in a field.\<close>

definition number_or :: "jsval \<Rightarrow> real \<Rightarrow> real" where
  "number_or v d = (case v of JNum x \<Rightarrow> x | _ \<Rightarrow> d)"

definition value_or :: "jsval \<Rightarrow> jsval \<Rightarrow> jsval" where
  "value_or v d = (if not_nullish v then v else d)"

text \<open>Running frames while keeping what each one emits.\<close>

fun Car_trace :: "car \<Rightarrow> (keys option \<times> dt_arg) list \<Rightarrow> (car \<times> car_event list) list" where
  "Car_trace c [] = []"
| "Car_trace c ((input, dt) # fs) =
     Car_update input dt c # Car_trace (fst (Car_update input dt c)) fs"

subsection \<open>The nitro invariant\<close>

definition nitro_ok :: "car \<Rightarrow> bool" where
  "nitro_ok c \<longleftrightarrow>
     0 \<le> nitroAmount c \<and> nitroAmount c \<le> nitroCapacity (config c) \<and>
     0 \<le> nitroCooldown c \<and> nitroCooldown c \<le> nitroCooldownSec (config c)"

text \<open>A configuration whose nitro tunables are not negative.\<close>

definition nitro_config_ok :: "car_config \<Rightarrow> bool" where
  "nitro_config_ok cfg \<longleftrightarrow>
     0 \<le> nitroCapacity cfg \<and> 0 \<le> nitroCooldownSec cfg \<and>
     0 \<le> nitroDrainRate cfg \<and> 0 \<le> nitroRegenRate cfg"

section \<open>EnemyCar (unnamed/part_000)\<close>

text \<open>
  The remainder operator \<open>%\<close> of JavaScript truncates the quotient toward zero, so the
  result has the sign of the dividend.
\<close>

definition trunc :: "real \<Rightarrow> int" where
  "trunc z = (if z < 0 then \<lceil>z\<rceil> else \<lfloor>z\<rfloor>)"

definition js_rem :: "real \<Rightarrow> real \<Rightarrow> real" where
  "js_rem x y = x - y * of_int (trunc (x / y))"

text \<open>The track curve, a \<open>THREE.CatmullRomCurve3\<close>, is seen through its two queries.\<close>

record curve =
  getPointAt :: "real \<Rightarrow> vec3"
  getTangentAt :: "real \<Rightarrow> vec3"

definition crossVectors :: "vec3 \<Rightarrow> vec3 \<Rightarrow> vec3" where
  "crossVectors a b = (case a of (ax, ay, az) \<Rightarrow> case b of (bx, by, bz) \<Rightarrow>
     (ay * bz - az * by, az * bx - ax * bz, ax * by - ay * bx))"

record enemy_config =
  baseSpeed :: real
  nitroMultiplier :: real
  nitroDuration :: real
  nitroCooldownMin :: real
  nitroCooldownMax :: real
  laneSwitchIntervalMin :: real
  laneSwitchIntervalMax :: real
  laneWidth :: real
  e_collisionRadius :: real

text \<open>
  The state of a rival; \<open>e_position\<close> is \<open>group.position\<close>. Lights, flare and wheel
  spin are display only and are left out.
\<close>

record enemy =
  e_config :: enemy_config
  e_progress :: real
  e_speed :: real
  laneOffset :: real
  targetLaneOffset :: real
  isNitroActive :: bool
  nitroTimer :: real
  e_nitroCooldown :: real
  tLane :: real
  e_position :: vec3

datatype enemy_event = EvNitroStart | EvNitroEnd | EvEnemyCollision

text \<open>
  \<open>Math.random()\<close> is an ambient source of numbers in \<open>[0, 1)\<close>. A function gives the
  draws in the order they are made and a counter tells how many were consumed.
  The constructor makes five draws.
\<close>

definition EnemyCar_new :: "(nat \<Rightarrow> real) \<Rightarrow> nat \<Rightarrow> real \<Rightarrow> enemy \<times> nat" where
  "EnemyCar_new rnd i lane =
    (let cfg = \<lparr> baseSpeed = 0.18 + rnd i * 0.06, nitroMultiplier = 1.6,
                   nitroDuration = 1.5 + rnd (i + 1) * 1.5, nitroCooldownMin = 4,
                   nitroCooldownMax = 12, laneSwitchIntervalMin = 2.5,
                   laneSwitchIntervalMax = 6, laneWidth = 4.5, e_collisionRadius = 2.0 \<rparr>
     in (\<lparr> e_config = cfg, e_progress = rnd (i + 2), e_speed = baseSpeed cfg,
           laneOffset = lane, targetLaneOffset = lane, isNitroActive = False, nitroTimer = 0,
           e_nitroCooldown = nitroCooldownMin cfg
              + rnd (i + 3) * (nitroCooldownMax cfg - nitroCooldownMin cfg),
           tLane = rnd (i + 4) * (laneSwitchIntervalMax cfg - laneSwitchIntervalMin cfg)
              + laneSwitchIntervalMin cfg,
           e_position = (0, 0, 0) \<rparr>, i + 5))"

definition requestNitro :: "enemy \<Rightarrow> bool \<times> enemy \<times> enemy_event list" where
  "requestNitro e =
    (if isNitroActive e \<or> e_nitroCooldown e > 0 then (False, e, [])
     else (True, e\<lparr>isNitroActive := True, nitroTimer := nitroDuration (e_config e)\<rparr>,
           [EvNitroStart]))"

text \<open>
  The nitro heuristic of \<open>update\<close>. \<open>||\<close> short-cuts: the random draw is made only
  when the rubber-band test fails.
\<close>

definition nitroHeuristic ::
  "(nat \<Rightarrow> real) \<Rightarrow> nat \<Rightarrow> real option \<Rightarrow> enemy \<Rightarrow> enemy \<times> enemy_event list \<times> nat" where
  "nitroHeuristic rnd i playerProgress e =
    (if \<not> isNitroActive e \<and> e_nitroCooldown e \<le> 0 then
       let trailing = (case playerProgress of None \<Rightarrow> False
                       | Some p \<Rightarrow> e_progress e + 0.05 < p);
           should = (trailing \<or> rnd i < 0.002);
           i1 = (if trailing then i else i + 1)
       in if should then (case requestNitro e of (granted, e1, evs) \<Rightarrow> (e1, evs, i1))
          else (e, [], i1)
     else (e, [], i))"

definition nitroDrive ::
  "(nat \<Rightarrow> real) \<Rightarrow> nat \<Rightarrow> real \<Rightarrow> enemy \<Rightarrow> enemy \<times> enemy_event list \<times> nat" where
  "nitroDrive rnd i dt e =
    (if isNitroActive e then
       let target = baseSpeed (e_config e) * nitroMultiplier (e_config e);
           e1 = e\<lparr>nitroTimer := nitroTimer e - dt,
                   e_speed := lerp (e_speed e) target (min 1 (dt * 6))\<rparr>
       in if nitroTimer e1 \<le> 0 then
            (e1\<lparr>isNitroActive := False,
                e_nitroCooldown := nitroCooldownMin (e_config e1)
                   + rnd i * (nitroCooldownMax (e_config e1) - nitroCooldownMin (e_config e1))\<rparr>,
             [EvNitroEnd], i + 1)
          else (e1, [], i)
     else (e\<lparr>e_speed := lerp (e_speed e) (baseSpeed (e_config e)) (dt * 0.5)\<rparr>, [], i))"

definition advanceProgress :: "real \<Rightarrow> enemy \<Rightarrow> enemy" where
  "advanceProgress dt e = e\<lparr>e_progress := js_rem (e_progress e + e_speed e * dt) 1\<rparr>"

definition laneSwitch :: "(nat \<Rightarrow> real) \<Rightarrow> nat \<Rightarrow> real \<Rightarrow> enemy \<Rightarrow> enemy \<times> nat" where
  "laneSwitch rnd i dt e =
    (let e1 = e\<lparr>tLane := tLane e - dt\<rparr>;
         (e2, i2) = (if tLane e1 \<le> 0 then
             (e1\<lparr>targetLaneOffset := (rnd i - 0.5) * laneWidth (e_config e1) * 2,
                 tLane := laneSwitchIntervalMin (e_config e1)
                    + rnd (i + 1) * (laneSwitchIntervalMax (e_config e1)
                                      - laneSwitchIntervalMin (e_config e1))\<rparr>, i + 2)
           else (e1, i));
         laneLerp = min 1 (dt * (if isNitroActive e2 then 2.8 else 1.6))
     in (e2\<lparr>laneOffset := lerp (laneOffset e2) (targetLaneOffset e2) laneLerp\<rparr>, i2))"

definition placeOnTrack :: "curve \<Rightarrow> enemy \<Rightarrow> enemy" where
  "placeOnTrack cv e =
    (let pos = getPointAt cv (e_progress e);
         tangent = getTangentAt cv (e_progress e);
         side = normalize (crossVectors (0, 1, 0) tangent)
     in e\<lparr>e_position := addScaledVector pos side (laneOffset e)\<rparr>)"

text \<open>
  \<open>update(dt, options)\<close>; \<open>options.playerProgress\<close> is \<open>None\<close> when it is missing or
  null. The result carries the events emitted and the new draw counter.
\<close>

definition EnemyCar_update ::
  "curve \<Rightarrow> (nat \<Rightarrow> real) \<Rightarrow> nat \<Rightarrow> dt_arg \<Rightarrow> real option \<Rightarrow> enemy
     \<Rightarrow> enemy \<times> enemy_event list \<times> nat" where
  "EnemyCar_update cv rnd i dt_in playerProgress e =
    (if dt_rejected dt_in then (e, [], i)
     else
       let dt = dt_value dt_in;
           e1 = e\<lparr>e_nitroCooldown := max 0 (e_nitroCooldown e - dt)\<rparr>
       in case nitroHeuristic rnd i playerProgress e1 of (e2, evs2, i2) \<Rightarrow>
          case nitroDrive rnd i2 dt e2 of (e3, evs3, i3) \<Rightarrow>
          case laneSwitch rnd i3 dt (advanceProgress dt e3) of (e5, i5) \<Rightarrow>
            (placeOnTrack cv e5, evs2 @ evs3, i5))"

text \<open>\<open>handleCollisionSimple(obj)\<close>, with the position of \<open>obj\<close>.\<close>

definition EnemyCar_handleCollisionSimple :: "vec3 \<Rightarrow> enemy \<Rightarrow> enemy \<times> enemy_event list" where
  "EnemyCar_handleCollisionSimple objPos e =
    (let dir = normalize (subVectors (e_position e) objPos)
     in (e\<lparr>e_position := addScaledVector (e_position e) dir 0.8,
            e_speed := e_speed e * (- 0.5)\<rparr>, [EvEnemyCollision]))"

subsection \<open>Serialization\<close>

text \<open>
  \<open>fromJSON\<close> of a rival stores whatever value it finds under a key, of any type. So it
  is modelled on the object as JavaScript sees it: the four properties it writes hold
  arbitrary JS values, and every other property of the rival is the rest of the record.
\<close>

record enemy_props =
  p_progress :: jsval
  p_laneOffset :: jsval
  p_speed :: jsval
  p_isNitroActive :: jsval

record enemy_json =
  ej_progress :: jsval
  ej_laneOffset :: jsval
  ej_speed :: jsval
  ej_isNitroActive :: jsval

definition empty_enemy_json :: enemy_json where
  "empty_enemy_json = \<lparr> ej_progress = JUndefined, ej_laneOffset = JUndefined,
     ej_speed = JUndefined, ej_isNitroActive = JUndefined \<rparr>"

text \<open>A rival of the simulation, seen as such an object.\<close>

definition enemy_object :: "enemy \<Rightarrow> enemy enemy_props_scheme" where
  "enemy_object e = \<lparr> p_progress = JNum (e_progress e), p_laneOffset = JNum (laneOffset e),
     p_speed = JNum (e_speed e), p_isNitroActive = JBool (isNitroActive e), \<dots> = e \<rparr>"

definition EnemyCar_toJSON :: "'a enemy_props_scheme \<Rightarrow> enemy_json" where
  "EnemyCar_toJSON s = \<lparr> ej_progress = p_progress s, ej_laneOffset = p_laneOffset s,
     ej_speed = p_speed s, ej_isNitroActive = p_isNitroActive s \<rparr>"

definition EnemyCar_fromJSON :: "enemy_json option \<Rightarrow> 'a enemy_props_scheme \<Rightarrow> 'a enemy_props_scheme" where
  "EnemyCar_fromJSON arg s =
    (let data = (case arg of None \<Rightarrow> empty_enemy_json | Some d \<Rightarrow> d);
         s1 = (if not_nullish (ej_progress data) then s\<lparr>p_progress := ej_progress data\<rparr> else s);
         s2 = (if not_nullish (ej_laneOffset data) then s1\<lparr>p_laneOffset := ej_laneOffset data\<rparr>
               else s1);
         s3 = (if not_nullish (ej_speed data) then s2\<lparr>p_speed := ej_speed data\<rparr> else s2)
     in if not_nullish (ej_isNitroActive data)
        then s3\<lparr>p_isNitroActive := ej_isNitroActive data\<rparr> else s3)"

section \<open>Track (src/world/Track.js)\<close>

text \<open>
  A destructible prop with its \<open>userData\<close>, a pillar with its registered radius, and the
  parts of the track the game logic reads.
\<close>

record destructible =
  prop_position :: vec3
  hit :: bool
  visible :: bool
  scoreValue :: real

record pillar =
  pillar_position :: vec3
  radius :: real

record track =
  trackCurve :: curve
  destructibles :: "destructible list"
  colliders :: "pillar list"

text \<open>
  \<open>getTrackProgress\<close>: 201 samples, \<open>i = 0 .. 200\<close>. \<open>minDist\<close> starts at \<open>Infinity\<close>,
  here \<open>None\<close>.
\<close>

definition sampleCurve :: "curve \<Rightarrow> vec3 \<Rightarrow> nat \<Rightarrow> real option \<times> real \<Rightarrow> real option \<times> real" where
  "sampleCurve cv pos i st =
    (case st of (minDist, bestT) \<Rightarrow>
       let t = real i / 200;
           p = getPointAt cv t;
           d = distanceToSquared p pos
       in if (case minDist of None \<Rightarrow> True | Some m \<Rightarrow> d < m) then (Some d, t)
          else (minDist, bestT))"

definition getTrackProgress :: "curve \<Rightarrow> vec3 \<Rightarrow> real" where
  "getTrackProgress cv pos = snd (fold (sampleCurve cv pos) [0..<201] (None, 0))"

section \<open>Game (unnamed/part_001)\<close>

datatype game_state = LOADING | MENU | PLAYING | PAUSED | GAMEOVER

text \<open>
  The fields of the game the race logic and the collision pass work on. \<open>bestLapTime\<close>
  starts at \<open>Infinity\<close>, here \<open>None\<close>. Texts written to the HUD are left out.
\<close>

record game =
  gameState :: game_state
  score :: real
  lap :: int
  maxLaps :: int
  checkpointReached :: bool
  lapStartTime :: real
  bestLapTime :: "real option"
  currentLapTime :: real
  cameraShake :: real
  startLinePos :: vec3
  halfwayPos :: vec3
  player :: car
  rivals :: "enemy list"
  track :: track

definition computeRank :: "game \<Rightarrow> nat" where
  "computeRank g =
    (let playerProgress = (if progress (player g) = 0 then 0 else progress (player g))
     in 1 + length (filter (\<lambda>r. e_progress r > playerProgress) (rivals g)))"

definition finishRace :: "game \<Rightarrow> game" where
  "finishRace g = g\<lparr>gameState := GAMEOVER, player := (player g)\<lparr>speed := 0\<rparr>\<rparr>"

subsection \<open>Race logic\<close>

text \<open>\<open>updateRaceLogic\<close>; \<open>now\<close> is the reading of \<open>performance.now()\<close>.\<close>

definition updateProgress :: "game \<Rightarrow> game" where
  "updateProgress g =
    (let t = getTrackProgress (trackCurve (track g)) (position (player g))
     in g\<lparr>player := (player g)\<lparr>progress := (if t = 0 then 0 else t)\<rparr>\<rparr>)"

definition armCheckpoint :: "game \<Rightarrow> game" where
  "armCheckpoint g =
    (if \<not> checkpointReached g \<and> distanceTo (position (player g)) (halfwayPos g) < 80
     then g\<lparr>checkpointReached := True\<rparr> else g)"

definition crossFinishLine :: "real \<Rightarrow> game \<Rightarrow> game" where
  "crossFinishLine now g =
    (if checkpointReached g \<and> distanceTo (position (player g)) (startLinePos g) < 80 then
       let g1 = g\<lparr>lap := lap g + 1, checkpointReached := False\<rparr>;
           lapTime = (now - lapStartTime g1) / 1000;
           g2 = (if (case bestLapTime g1 of None \<Rightarrow> True | Some b \<Rightarrow> lapTime < b)
                 then g1\<lparr>bestLapTime := Some lapTime\<rparr> else g1);
           g3 = g2\<lparr>lapStartTime := now\<rparr>
       in if lap g3 > maxLaps g3 then finishRace g3 else g3
     else g)"

definition updateLapTimer :: "real \<Rightarrow> game \<Rightarrow> game" where
  "updateLapTimer now g =
    (if gameState g = PLAYING then g\<lparr>currentLapTime := (now - lapStartTime g) / 1000\<rparr> else g)"

definition updateRaceLogic :: "real \<Rightarrow> game \<Rightarrow> game" where
  "updateRaceLogic now g =
    (if gameState g \<noteq> PLAYING then g
     else updateLapTimer now (crossFinishLine now (armCheckpoint (updateProgress g))))"

text \<open>
  A run of the race logic: before each step the rest of the frame has put the player
  somewhere, and the clock has advanced.
\<close>

definition raceFrame :: "game \<Rightarrow> vec3 \<times> real \<Rightarrow> game" where
  "raceFrame g f = updateRaceLogic (snd f) (g\<lparr>player := (player g)\<lparr>position := fst f\<rparr>\<rparr>)"

fun raceRun :: "game \<Rightarrow> (vec3 \<times> real) list \<Rightarrow> game" where
  "raceRun g [] = g"
| "raceRun g (f # fs) = raceRun (raceFrame g f) fs"

subsection \<open>Collisions\<close>

text \<open>\<open>triggerDestruction(obj)\<close>, for the prop at index \<open>i\<close> of \<open>track.destructibles\<close>.\<close>

definition scoreAward :: "destructible \<Rightarrow> real" where
  "scoreAward obj = (if scoreValue obj = 0 then 100 else scoreValue obj)"

definition triggerDestruction :: "nat \<Rightarrow> game \<Rightarrow> game" where
  "triggerDestruction i g =
    (let obj = destructibles (track g) ! i
     in g\<lparr>track := (track g)\<lparr>destructibles :=
                   (destructibles (track g))[i := obj\<lparr>hit := True, visible := False\<rparr>]\<rparr>,
          player := (player g)\<lparr>speed := speed (player g) * 0.85\<rparr>,
          cameraShake := 0.5,
          score := score g + scoreAward obj\<rparr>)"

text \<open>
  The exact test, \<open>Box3.setFromObject\<close> and \<open>intersectsBox\<close>, is three.js code working
  on the geometry of the two meshes. It is a parameter here: a predicate on where the
  player's mesh is, how it is turned, and the prop.
\<close>

type_synonym box_test = "vec3 \<times> real \<times> real \<Rightarrow> destructible \<Rightarrow> bool"

definition meshPose :: "car \<Rightarrow> vec3 \<times> real \<times> real" where
  "meshPose c = (position c, meshRotationY c, meshRotationZ c)"

definition visitDestructible :: "box_test \<Rightarrow> nat \<Rightarrow> game \<Rightarrow> game" where
  "visitDestructible boxTest i g =
    (let obj = destructibles (track g) ! i
     in if hit obj then g
        else if distanceToSquared (position (player g)) (prop_position obj) < 200 then
          (if boxTest (meshPose (player g)) obj then triggerDestruction i g else g)
        else g)"

text \<open>
  The collision test of a prop against the player car: the squared-distance filter and the
  exact test. \<open>destroyedNow\<close>: the prop at index \<open>i\<close> is not hit yet and its test succeeds.
\<close>

definition testSucceeds :: "box_test \<Rightarrow> car \<Rightarrow> destructible \<Rightarrow> bool" where
  "testSucceeds boxTest c obj \<longleftrightarrow>
     distanceToSquared (position c) (prop_position obj) < 200 \<and> boxTest (meshPose c) obj"

definition hitAt :: "game \<Rightarrow> nat \<Rightarrow> bool" where
  "hitAt g i = hit (destructibles (track g) ! i)"

definition destroyedNow :: "box_test \<Rightarrow> game \<Rightarrow> nat \<Rightarrow> bool" where
  "destroyedNow boxTest g i \<longleftrightarrow>
     \<not> hitAt g i \<and> testSucceeds boxTest (player g) (destructibles (track g) ! i)"

text \<open>The loop runs from the last prop down to the first: \<open>k\<close> props are still to visit.\<close>

fun destructiblesLoop :: "box_test \<Rightarrow> nat \<Rightarrow> game \<Rightarrow> game" where
  "destructiblesLoop boxTest 0 g = g"
| "destructiblesLoop boxTest (Suc k) g =
     destructiblesLoop boxTest k (visitDestructible boxTest k g)"

definition playerRadius :: "car \<Rightarrow> real" where
  "playerRadius c = (if boundingRadius c = 0 then 2 else boundingRadius c)"

definition rivalRadius :: "enemy \<Rightarrow> real" where
  "rivalRadius r =
    (if e_collisionRadius (e_config r) = 0 then 2 else e_collisionRadius (e_config r))"

definition overlapping :: "car \<Rightarrow> enemy \<Rightarrow> bool" where
  "overlapping pl r \<longleftrightarrow>
     distanceTo (position pl) (e_position r) < playerRadius pl + rivalRadius r"

text \<open>
  A pass over the game either runs to its end or is left by an exception. JavaScript undoes
  nothing when it throws: the result carries the game as it is at that moment, and the
  next frame goes on from there.
\<close>

datatype pass_result = Completed game | Threw game

fun state_of :: "pass_result \<Rightarrow> game" where
  "state_of (Completed g) = g"
| "state_of (Threw g) = g"

text \<open>
  The listeners \<open>init\<close> wires. A rival's \<open>collision\<close> raises the camera shake to 0.6 at
  least. The player's \<open>drift\<close> adds to the score (\<open>setDrift\<close> is guarded and absent). The
  player's \<open>collision\<close> raises the camera shake to 0.8 at least and then calls
  \<open>audioManager.playSound\<close>; \<open>AudioManager\<close> (src/core/AudioManager.js) has \<open>init\<close> and
  \<open>update\<close> and no \<open>playSound\<close>, so the call is a TypeError that leaves the listener,
  \<open>emit\<close>, the collision handler and the \<open>forEach\<close> over the rivals. No other event has
  a listener.
\<close>

fun rivalListener :: "enemy_event \<Rightarrow> game \<Rightarrow> game" where
  "rivalListener EvEnemyCollision g = g\<lparr>cameraShake := max (cameraShake g) 0.6\<rparr>"
| "rivalListener ev g = g"

fun playerListener :: "car_event \<Rightarrow> game \<Rightarrow> pass_result" where
  "playerListener (EvCollision impulse) g = Threw (g\<lparr>cameraShake := max (cameraShake g) 0.8\<rparr>)"
| "playerListener (EvDrift factor) g =
     Completed (g\<lparr>score := score g + of_int \<lfloor>\<bar>factor\<bar> * 10\<rfloor>\<rparr>)"
| "playerListener ev g = Completed g"

fun dispatchRival :: "enemy_event list \<Rightarrow> game \<Rightarrow> game" where
  "dispatchRival [] g = g"
| "dispatchRival (ev # evs) g = dispatchRival evs (rivalListener ev g)"

fun dispatchPlayer :: "car_event list \<Rightarrow> game \<Rightarrow> pass_result" where
  "dispatchPlayer [] g = Completed g"
| "dispatchPlayer (ev # evs) g =
     (case playerListener ev g of
        Threw g1 \<Rightarrow> Threw g1
      | Completed g1 \<Rightarrow> dispatchPlayer evs g1)"

text \<open>
  The body of \<open>rivals.forEach\<close> for rival \<open>j\<close>: on overlap the rival is handled
  first, then the player against the rival's new position, then the camera shake is set.
  Each handler has changed its vehicle by the time it emits \<open>collision\<close>. \<open>clock j\<close> is
  the reading of \<open>performance.now()\<close> while rival \<open>j\<close> is handled.
\<close>

definition collideRival :: "(nat \<Rightarrow> real) \<Rightarrow> nat \<Rightarrow> game \<Rightarrow> pass_result" where
  "collideRival clock j g =
    (if overlapping (player g) (rivals g ! j) then
       (case EnemyCar_handleCollisionSimple (position (player g)) (rivals g ! j) of
          (r1, revs) \<Rightarrow>
            let g1 = dispatchRival revs (g\<lparr>rivals := (rivals g)[j := r1]\<rparr>)
            in case Car_handleCollisionSimple (clock j) (e_position r1) (player g1) of
                 (pl1, pevs) \<Rightarrow>
                   (case dispatchPlayer pevs (g1\<lparr>player := pl1\<rparr>) of
                      Threw g2 \<Rightarrow> Threw g2
                    | Completed g2 \<Rightarrow> Completed (g2\<lparr>cameraShake := 0.8\<rparr>)))
     else Completed g)"

text \<open>\<open>rivals.forEach\<close>: an exception ends it.\<close>

fun rivalsLoop :: "(nat \<Rightarrow> real) \<Rightarrow> nat list \<Rightarrow> game \<Rightarrow> pass_result" where
  "rivalsLoop clock [] g = Completed g"
| "rivalsLoop clock (j # js) g =
     (case collideRival clock j g of
        Threw g1 \<Rightarrow> Threw g1
      | Completed g1 \<Rightarrow> rivalsLoop clock js g1)"

definition collidePillar :: "pillar \<Rightarrow> game \<Rightarrow> game" where
  "collidePillar p g =
    (let pl = player g;
         dist = distanceTo (position pl) (pillar_position p);
         pillarRadius = (if radius p = 0 then 5 else radius p)
     in if dist < pillarRadius + playerRadius pl then
          let dir = normalize (subVectors (position pl) (pillar_position p))
          in g\<lparr>player := pl\<lparr>speed := speed pl * (- 0.5),
                            position := addScaledVector (position pl) dir 1\<rparr>,
               cameraShake := 0.8\<rparr>
        else g)"

definition respawnPlayer :: "game \<Rightarrow> game" where
  "respawnPlayer g =
     g\<lparr>player := (player g)\<lparr>position := (0, 5, 0), speed := 0, meshRotationY := 0,
                               meshRotationZ := 0\<rparr>,
       cameraShake := 1.0\<rparr>"

text \<open>
  \<open>updateCollisions\<close>: the props, the rivals, the pillars, the void. An exception in the
  rivals part skips the pillars and the void test.
\<close>

definition updateCollisions :: "box_test \<Rightarrow> (nat \<Rightarrow> real) \<Rightarrow> game \<Rightarrow> pass_result" where
  "updateCollisions boxTest clock g =
    (if gameState g \<noteq> PLAYING then Completed g
     else
       let g1 = destructiblesLoop boxTest (length (destructibles (track g))) g
       in case rivalsLoop clock [0..<length (rivals g1)] g1 of
            Threw g2 \<Rightarrow> Threw g2
          | Completed g2 \<Rightarrow>
              let g3 = fold collidePillar (colliders (track g2)) g2
              in Completed (if fst (snd (position (player g3))) < - 40 then respawnPlayer g3
                            else g3))"

text \<open>
  A run of collision passes: before each pass the rest of the frame has moved the player
  car, and the clock has advanced. The game goes on from where a pass left it, thrown or
  not.
\<close>

definition collisionFrame :: "box_test \<Rightarrow> game \<Rightarrow> car \<times> (nat \<Rightarrow> real) \<Rightarrow> game" where
  "collisionFrame boxTest g f =
     state_of (updateCollisions boxTest (snd f) (g\<lparr>player := fst f\<rparr>))"

fun collisionRun :: "box_test \<Rightarrow> game \<Rightarrow> (car \<times> (nat \<Rightarrow> real)) list \<Rightarrow> game" where
  "collisionRun boxTest g [] = g"
| "collisionRun boxTest g (f # fs) = collisionRun boxTest (collisionFrame boxTest g f) fs"

text \<open>The number of frames of a run in which prop \<open>i\<close> goes from not hit to hit.\<close>

fun transitions :: "box_test \<Rightarrow> game \<Rightarrow> (car \<times> (nat \<Rightarrow> real)) list \<Rightarrow> nat \<Rightarrow> nat" where
  "transitions boxTest g [] i = 0"
| "transitions boxTest g (f # fs) i =
     (if \<not> hitAt g i \<and> hitAt (collisionFrame boxTest g f) i then 1 else 0)
       + transitions boxTest (collisionFrame boxTest g f) fs i"

section \<open>Sample values\<close>

text \<open>
  A car that has just burnt all its nitro (Shift held through one frame of four seconds), a
  straight piece of track, a constant random source and a rival at base speed.
\<close>

definition depleted_car :: car where
  "depleted_car =
     fst (Car_update (Some (no_keys\<lparr>key_shift := True\<rparr>)) (Seconds 4) (Car_new default_config))"

definition sample_curve :: curve where
  "sample_curve = \<lparr> getPointAt = (\<lambda>t. (t, 0, 0)), getTangentAt = (\<lambda>t. (1, 0, 0)) \<rparr>"

definition sample_rnd :: "nat \<Rightarrow> real" where
  "sample_rnd n = 0.5"

definition sample_enemy_config :: enemy_config where
  "sample_enemy_config = \<lparr> baseSpeed = 0.2, nitroMultiplier = 1.6, nitroDuration = 2,
     nitroCooldownMin = 4, nitroCooldownMax = 12, laneSwitchIntervalMin = 2.5,
     laneSwitchIntervalMax = 6, laneWidth = 4.5, e_collisionRadius = 2.0 \<rparr>"

definition sample_rival :: enemy where
  "sample_rival = \<lparr> e_config = sample_enemy_config, e_progress = 0.1, e_speed = 0.2,
     laneOffset = - 4.5, targetLaneOffset = - 4.5, isNitroActive = False, nitroTimer = 0,
     e_nitroCooldown = 0, tLane = 4, e_position = (0, 0, 0) \<rparr>"

text \<open>
  A game in play: the player at the start line with the checkpoint armed, one rival a unit
  away, one prop three units away, and a clock that reads the same through a frame.
\<close>

definition sample_game :: game where
  "sample_game = \<lparr> gameState = PLAYING, score = 0, lap = 1, maxLaps = 3,
     checkpointReached = True, lapStartTime = 0, bestLapTime = None, currentLapTime = 0,
     cameraShake = 0, startLinePos = (0, 0, 0), halfwayPos = (1000, 0, 0),
     player = (Car_new default_config)\<lparr>speed := 1\<rparr>,
     rivals = [sample_rival\<lparr>e_position := (1, 0, 0)\<rparr>],
     track = \<lparr> trackCurve = sample_curve,
       destructibles =
         [\<lparr> prop_position = (3, 0, 0), hit = False, visible = True, scoreValue = 100 \<rparr>],
       colliders = [] \<rparr> \<rparr>"

definition constant_clock :: "real \<Rightarrow> nat \<Rightarrow> real" where
  "constant_clock t j = t"

definition always_intersects :: box_test where
  "always_intersects pose obj = True"

text \<open>The sample game as its first collision, at time 1000, leaves it.\<close>

definition after_first :: game where
  "after_first = sample_game\<lparr>
       rivals := [sample_rival\<lparr>e_position := (1.8, 0, 0), e_speed := - 0.1\<rparr>],
       player := (Car_new default_config)\<lparr>speed := - 0.5, health := 90,
          position := (- 0.8, 0, 0), lastCollisionTime := 1000, carCameraShake := 0.8\<rparr>,
       cameraShake := 0.8\<rparr>"

section \<open>The guard on the time step, case by case\<close>

lemma dt_rejected_simps [simp]:
  "dt_rejected (Seconds t) = (t \<le> 0)"
  "dt_rejected NotANumber"
  "dt_rejected Missing"
  "dt_rejected Null"
  "dt_rejected (Flag b) = (\<not> b)"
  "dt_rejected EmptyText"
  "dt_rejected (NumericText x) = (x \<le> 0)"
  by (auto simp: dt_rejected_def)

lemma dt_value_simps [simp]:
  "dt_value (Seconds t) = t"
  "dt_value (Flag True) = 1"
  "dt_value (NumericText x) = x"
  by (simp_all add: dt_value_def)

lemma dt_value_positive: "\<not> dt_rejected dt \<Longrightarrow> 0 < dt_value dt"
  by (cases dt) (auto simp: dt_rejected_def dt_value_def)

section \<open>Nitro bounds\<close>

lemma accelerate_nitro [simp]:
  "nitroAmount (accelerate k dt c) = nitroAmount c"
  "nitroCooldown (accelerate k dt c) = nitroCooldown c"
  "config (accelerate k dt c) = config c"
  by (simp_all add: accelerate_def Let_def)

lemma limitSpeed_nitro [simp]:
  "nitroAmount (limitSpeed c) = nitroAmount c"
  "nitroCooldown (limitSpeed c) = nitroCooldown c"
  "config (limitSpeed c) = config c"
  by (simp_all add: limitSpeed_def Let_def)

lemma tail_nitro [simp]:
  "nitroAmount (keepProgress (move (orientMesh (steer k dt (applyFriction dt c))))) = nitroAmount c"
  "nitroCooldown (keepProgress (move (orientMesh (steer k dt (applyFriction dt c))))) = nitroCooldown c"
  "config (keepProgress (move (orientMesh (steer k dt (applyFriction dt c))))) = config c"
  by (simp_all add: keepProgress_def move_def orientMesh_def steer_def applyFriction_def Let_def)

lemma regenNitro_ok:
  assumes "nitro_config_ok (config c)" "nitro_ok c" "0 < dt"
  shows "nitro_ok (regenNitro dt c) \<and> config (regenNitro dt c) = config c"
  using assms by (auto simp: regenNitro_def nitro_ok_def nitro_config_ok_def)

lemma useNitro_ok:
  assumes "nitro_config_ok (config c)" "nitro_ok c" "0 < dt" "useNitro dt c = (u, c', evs)"
  shows "nitro_ok c' \<and> config c' = config c"
proof -
  define drain where "drain = nitroDrainRate (config c) * dt"
  have d: "0 \<le> drain"
    using assms by (simp add: nitro_config_ok_def drain_def)
  have "useNitro dt c =
    (if nitroCooldown c > 0 then (False, c, [])
     else if nitroAmount c \<le> 0 then
       (False, c\<lparr>nitroCooldown := nitroCooldownSec (config c)\<rparr>, [EvNitroEmpty])
     else if max 0 (nitroAmount c - drain) = 0 then
       (True, c\<lparr>nitroAmount := max 0 (nitroAmount c - drain),
                 nitroCooldown := nitroCooldownSec (config c)\<rparr>,
        [EvNitro (max 0 (nitroAmount c - drain))])
     else (True, c\<lparr>nitroAmount := max 0 (nitroAmount c - drain)\<rparr>,
           [EvNitro (max 0 (nitroAmount c - drain))]))"
    by (simp add: useNitro_def Let_def drain_def)
  with assms(4) d assms(1,2) show ?thesis
    by (auto simp: nitro_ok_def nitro_config_ok_def split: if_splits)
qed

lemma nitroStep_ok:
  assumes "nitro_config_ok (config c)" "nitro_ok c" "0 < dt" "nitroStep k dt c = (c', dr, evs)"
  shows "nitro_ok c' \<and> config c' = config c"
proof (cases "key_shift k \<and> nitroAmount c > 0 \<and> nitroCooldown c \<le> 0")
  case True
  obtain u c1 es where u: "useNitro dt c = (u, c1, es)"
    by (cases "useNitro dt c") auto
  from useNitro_ok [OF assms(1-3) u] have "nitro_ok c1" "config c1 = config c" by auto
  with True u assms(4) show ?thesis
    by (auto simp: nitroStep_def nitro_ok_def split: if_splits)
next
  case False
  with assms(4) have "c' = regenNitro dt c"
    by (auto simp: nitroStep_def)
  with regenNitro_ok [OF assms(1-3)] show ?thesis by simp
qed

lemma Car_update_ok:
  assumes "nitro_config_ok (config c)" "nitro_ok c"
  shows "nitro_ok (fst (Car_update input dt c)) \<and> config (fst (Car_update input dt c)) = config c"
proof (cases "dt_rejected dt")
  case True
  with assms show ?thesis by (simp add: Car_update_def)
next
  case False
  define t where "t = dt_value dt"
  have t: "0 < t"
    using False by (simp add: t_def dt_value_positive)
  let ?k = "input_keys input"
  obtain c2 dr evs where n: "nitroStep ?k t (accelerate ?k t c) = (c2, dr, evs)"
    by (cases "nitroStep ?k t (accelerate ?k t c)") auto
  have "nitro_ok (accelerate ?k t c)" "nitro_config_ok (config (accelerate ?k t c))"
    using assms by (simp_all add: nitro_ok_def)
  from nitroStep_ok [OF this(2) this(1) t n]
  have "nitro_ok c2" "config c2 = config c" by simp_all
  then show ?thesis
    using n False unfolding t_def
    by (simp add: Car_update_def update_to_limiter_def Let_def nitro_ok_def)
qed

lemma Car_updates_ok:
  "nitro_config_ok (config c) \<Longrightarrow> nitro_ok c \<Longrightarrow>
   nitro_ok (Car_updates c fs) \<and> config (Car_updates c fs) = config c"
proof (induction fs arbitrary: c)
  case Nil
  then show ?case by simp
next
  case (Cons f fs)
  obtain input dt where f: "f = (input, dt)" by (cases f)
  from Car_update_ok [OF Cons.prems]
  have "nitro_ok (fst (Car_update input dt c))" "config (fst (Car_update input dt c)) = config c"
    by simp_all
  with Cons.IH [of "fst (Car_update input dt c)"] Cons.prems f show ?case by simp
qed

text \<open>
  C1. A car built by the constructor from a configuration whose nitro capacity, cooldown
  duration, drain rate and regeneration rate are not negative keeps, after any finite
  sequence of \<open>update\<close> calls with any keys and any time steps (zero, negative and NaN
  included), its nitro amount in \<open>[0, nitroCapacity]\<close> and its nitro cooldown in
  \<open>[0, nitroCooldownSec]\<close>.
\<close>

theorem nitro_bounds_after_updates:
  assumes "nitro_config_ok cfg"
  shows "0 \<le> nitroAmount (Car_updates (Car_new cfg) fs) \<and>
         nitroAmount (Car_updates (Car_new cfg) fs) \<le> nitroCapacity cfg \<and>
         0 \<le> nitroCooldown (Car_updates (Car_new cfg) fs) \<and>
         nitroCooldown (Car_updates (Car_new cfg) fs) \<le> nitroCooldownSec cfg"
proof -
  have c: "config (Car_new cfg) = cfg"
    by (simp add: Car_new_def)
  have "nitro_ok (Car_new cfg)"
    using assms by (simp add: nitro_ok_def Car_new_def nitro_config_ok_def)
  with Car_updates_ok [of "Car_new cfg" fs] assms c
  have "nitro_ok (Car_updates (Car_new cfg) fs)" "config (Car_updates (Car_new cfg) fs) = cfg"
    by simp_all
  then show ?thesis
    unfolding nitro_ok_def by simp
qed

text \<open>
  The theorem at the default configuration: nitro held for four seconds in one frame, a
  stalled frame, a frame without input, a NaN frame.
\<close>

theorem nitro_bounds_after_updates_witness:
  "nitro_config_ok default_config \<and>
   0 \<le> nitroAmount (Car_updates (Car_new default_config)
          [(Some (no_keys\<lparr>key_shift := True\<rparr>), Seconds 4), (None, Seconds 0),
           (None, Seconds 0.05), (None, NotANumber)]) \<and>
   nitroAmount (Car_updates (Car_new default_config)
          [(Some (no_keys\<lparr>key_shift := True\<rparr>), Seconds 4), (None, Seconds 0),
           (None, Seconds 0.05), (None, NotANumber)]) \<le> nitroCapacity default_config \<and>
   0 \<le> nitroCooldown (Car_updates (Car_new default_config)
          [(Some (no_keys\<lparr>key_shift := True\<rparr>), Seconds 4), (None, Seconds 0),
           (None, Seconds 0.05), (None, NotANumber)]) \<and>
   nitroCooldown (Car_updates (Car_new default_config)
          [(Some (no_keys\<lparr>key_shift := True\<rparr>), Seconds 4), (None, Seconds 0),
           (None, Seconds 0.05), (None, NotANumber)]) \<le> nitroCooldownSec default_config"
proof -
  have h: "nitro_config_ok default_config"
    by (simp add: nitro_config_ok_def default_config_def)
  show ?thesis
    using h nitro_bounds_after_updates [OF h] by blast
qed


section \<open>The speed limiter under nitro\<close>

lemma limitSpeed_bounds:
  "0 \<le> maxSpeed c \<Longrightarrow>
   - maxSpeed c / 2 \<le> speed (limitSpeed c) \<and> speed (limitSpeed c) \<le> maxSpeed c"
  by (auto simp: limitSpeed_def Let_def)

text \<open>
  C2. What the code does while nitro drains. A new car with the default configuration,
  W and Shift held, one frame of one second: nitro drains, the nitro step leaves the speed
  at 1.87, between \<open>maxSpeed = 1.4\<close> and \<open>maxSpeed \<times> nitroPower = 2.24\<close>, and the limiter
  cuts it to 1.4. The same happens in a frame of 0.05 seconds for a car running at 1.39:
  the speed after the limiter is the normal ceiling 1.4, draining or not.
\<close>

theorem nitro_speed_cut_to_maxSpeed:
  "(case update_to_limiter (no_keys\<lparr>key_w := True, key_shift := True\<rparr>) 1 (Car_new default_config)
    of (c, draining, evs) \<Rightarrow>
      draining \<and> speed c = 1.4 \<and> maxSpeed c = 1.4 \<and> maxSpeed c * nitroPower (config c) = 2.24) \<and>
   speed (fst (nitroStep (no_keys\<lparr>key_w := True, key_shift := True\<rparr>) 1
            (accelerate (no_keys\<lparr>key_w := True, key_shift := True\<rparr>) 1 (Car_new default_config))))
     = 1.87 \<and>
   (case update_to_limiter (no_keys\<lparr>key_w := True, key_shift := True\<rparr>) 0.05
           ((Car_new default_config)\<lparr>speed := 1.39, accSmoothed := 1\<rparr>)
    of (c, draining, evs) \<Rightarrow> draining \<and> speed c = 1.4)"
  by (simp add: update_to_limiter_def nitroStep_def accelerate_def useNitro_def limitSpeed_def
      Car_new_def default_config_def no_keys_def lerp_def Let_def)

section \<open>Track progress\<close>

text \<open>
  On a closed curve, where the point at 1 is the point at 0, \<open>getTrackProgress\<close> returns
  one of \<open>0/200, \<dots>, 199/200\<close>: the last sample never beats the first.
\<close>

lemma fold_upt_Suc: "fold f [0..<Suc n] s = f n (fold f [0..<n] s)"
  by simp

lemma samples_below:
  "1 \<le> n \<Longrightarrow> n \<le> 200 \<Longrightarrow>
   \<exists>m k. fold (sampleCurve cv pos) [0..<n] (None, 0) = (Some m, real k / 200) \<and> k < n \<and>
          m \<le> distanceToSquared (getPointAt cv 0) pos"
proof (induction n)
  case 0
  then show ?case by simp
next
  case (Suc n)
  show ?case
  proof (cases "n = 0")
    case True
    then show ?thesis
      by (simp add: sampleCurve_def Let_def)
  next
    case False
    with Suc obtain m k where s: "fold (sampleCurve cv pos) [0..<n] (None, 0) = (Some m, real k / 200)"
      "k < n" "m \<le> distanceToSquared (getPointAt cv 0) pos"
      by auto
    show ?thesis
    proof (cases "distanceToSquared (getPointAt cv (real n / 200)) pos < m")
      case True
      with s have "fold (sampleCurve cv pos) [0..<Suc n] (None, 0) =
          (Some (distanceToSquared (getPointAt cv (real n / 200)) pos), real n / 200)"
        by (simp add: sampleCurve_def Let_def)
      with True s(3) show ?thesis by auto
    next
      case False
      with s have "fold (sampleCurve cv pos) [0..<Suc n] (None, 0) = (Some m, real k / 200)"
        by (simp add: sampleCurve_def Let_def)
      with s show ?thesis by auto
    qed
  qed
qed

lemma getTrackProgress_range:
  assumes "getPointAt cv 1 = getPointAt cv 0"
  shows "0 \<le> getTrackProgress cv pos \<and> getTrackProgress cv pos < 1"
proof -
  obtain m k where s: "fold (sampleCurve cv pos) [0..<200] (None, 0) = (Some m, real k / 200)"
    "k < 200" "m \<le> distanceToSquared (getPointAt cv 0) pos"
    using samples_below [of 200 cv pos] by auto
  have "[0..<201] = [0..<Suc 200]" by simp
  then have "fold (sampleCurve cv pos) [0..<201] (None, 0) =
      sampleCurve cv pos 200 (fold (sampleCurve cv pos) [0..<200] (None, 0))"
    by (simp only: fold_upt_Suc)
  also have "\<dots> = (Some m, real k / 200)"
    using s(3) assms unfolding s(1) by (simp add: sampleCurve_def Let_def)
  finally have "getTrackProgress cv pos = real k / 200"
    by (simp add: getTrackProgress_def)
  with s(2) show ?thesis by simp
qed

text \<open>
  C3. What the code does to the progress of a rival that moves backwards. A rival at
  progress 0 with speed 0.3 (as \<open>resetRace\<close> leaves the first rival) is hit, which turns its
  speed into -0.15; the next \<open>update\<close> with a time step of 0.05 leaves its progress at
  -0.0070625, below 0, since \<open>%\<close> keeps the sign of the dividend.
\<close>

theorem enemy_progress_negative_after_collision:
  "e_progress (fst (EnemyCar_update cv rnd i (Seconds 0.05) pp
      (fst (EnemyCar_handleCollisionSimple p
        \<lparr> e_config = sample_enemy_config,
           e_progress = 0, e_speed = 0.3, laneOffset = - 4.5, targetLaneOffset = - 4.5,
           isNitroActive = False, nitroTimer = 0, e_nitroCooldown = 8, tLane = 4,
           e_position = (0, 0, 0) \<rparr>)))) = - 0.0070625"
  by (simp add: EnemyCar_update_def EnemyCar_handleCollisionSimple_def nitroHeuristic_def
      nitroDrive_def laneSwitch_def advanceProgress_def placeOnTrack_def lerp_def Let_def
      js_rem_def trunc_def sample_enemy_config_def split: prod.splits)

section \<open>The guard on the time step\<close>

lemma tail_accSmoothed:
  "accSmoothed (keepProgress (move (orientMesh (steer k dt (applyFriction dt c))))) = accSmoothed c"
  by (simp add: keepProgress_def move_def orientMesh_def steer_def applyFriction_def Let_def)

text \<open>
  C8, counterexample. The boolean \<open>true\<close> is not a positive number, yet it passes the guard
  \<open>!dt || dt <= 0\<close> and counts as one second: with W held, a new car ends the frame with
  its smoothed throttle at 1 (from 0) and leaves the limiter at speed 0.85; the sample rival
  moves from progress 0.1 to 0.3.
\<close>

theorem update_runs_on_true:
  "\<not> positive_number (Flag True) \<and>
   accSmoothed (Car_new default_config) = 0 \<and>
   accSmoothed (fst (Car_update (Some (no_keys\<lparr>key_w := True\<rparr>)) (Flag True)
      (Car_new default_config))) = 1 \<and>
   speed (fst (update_to_limiter (no_keys\<lparr>key_w := True\<rparr>) (dt_value (Flag True))
      (Car_new default_config))) = 0.85 \<and>
   Car_update (Some (no_keys\<lparr>key_w := True\<rparr>)) (Flag True) (Car_new default_config)
     \<noteq> (Car_new default_config, []) \<and>
   e_progress sample_rival = 0.1 \<and>
   e_progress (fst (EnemyCar_update sample_curve sample_rnd 0 (Flag True) None sample_rival)) = 0.3 \<and>
   EnemyCar_update sample_curve sample_rnd 0 (Flag True) None sample_rival \<noteq> (sample_rival, [], 0)"
proof -
  have a: "accSmoothed (fst (Car_update (Some (no_keys\<lparr>key_w := True\<rparr>)) (Flag True)
      (Car_new default_config))) = 1"
    by (simp add: Car_update_def update_to_limiter_def nitroStep_def accelerate_def regenNitro_def
        limitSpeed_def tail_accSmoothed input_keys_def no_keys_def Car_new_def
        default_config_def lerp_def Let_def split: prod.splits)
  have b: "accSmoothed (Car_new default_config) = 0"
    by (simp add: Car_new_def)
  have s: "speed (fst (update_to_limiter (no_keys\<lparr>key_w := True\<rparr>) (dt_value (Flag True))
      (Car_new default_config))) = 0.85"
    by (simp add: update_to_limiter_def nitroStep_def accelerate_def regenNitro_def
        limitSpeed_def no_keys_def Car_new_def default_config_def lerp_def Let_def)
  have p: "e_progress (fst (EnemyCar_update sample_curve sample_rnd 0 (Flag True) None sample_rival))
      = 0.3"
    by (simp add: EnemyCar_update_def nitroHeuristic_def nitroDrive_def laneSwitch_def
        advanceProgress_def placeOnTrack_def lerp_def Let_def js_rem_def trunc_def
        sample_rival_def sample_enemy_config_def sample_rnd_def split: prod.splits)
  have q: "e_progress sample_rival = 0.1"
    by (simp add: sample_rival_def)
  have n: "\<not> positive_number (Flag True)"
    by (simp add: positive_number_def)
  have c: "Car_update (Some (no_keys\<lparr>key_w := True\<rparr>)) (Flag True) (Car_new default_config)
     \<noteq> (Car_new default_config, [])"
  proof
    assume "Car_update (Some (no_keys\<lparr>key_w := True\<rparr>)) (Flag True) (Car_new default_config)
      = (Car_new default_config, [])"
    with a b show False by simp
  qed
  have r: "EnemyCar_update sample_curve sample_rnd 0 (Flag True) None sample_rival
     \<noteq> (sample_rival, [], 0)"
  proof
    assume "EnemyCar_update sample_curve sample_rnd 0 (Flag True) None sample_rival
      = (sample_rival, [], 0)"
    with p q show False by simp
  qed
  from n b a s c q p r show ?thesis
    by (intro conjI)
qed

text \<open>
  C8, as amended. When \<open>dt\<close> is falsy (0, NaN, missing, null, false, the empty string) or
  reads as a number that is not above 0, \<open>Car.update\<close> and \<open>EnemyCar.update\<close> return the
  vehicle as it was, emit no event and, for the rival, draw no random number. A truthy
  \<open>dt\<close> that reads as a number above 0, such as \<open>true\<close>, \<open>'0.05'\<close> or \<open>[0.05]\<close>, runs
  the frame that this number runs.
\<close>

theorem update_ignores_rejected_dt:
  "(dt_not dt \<or> (\<exists>x. dt_number dt = Some x \<and> x \<le> 0) \<longrightarrow>
      Car_update input dt c = (c, []) \<and>
      EnemyCar_update cv rnd i dt playerProgress e = (e, [], i)) \<and>
   (\<not> dt_not dt \<and> dt_number dt = Some x \<and> 0 < x \<longrightarrow>
      Car_update input dt c = Car_update input (Seconds x) c \<and>
      EnemyCar_update cv rnd i dt playerProgress e
        = EnemyCar_update cv rnd i (Seconds x) playerProgress e)"
proof -
  have 1: "dt_not dt \<or> (\<exists>x. dt_number dt = Some x \<and> x \<le> 0) \<Longrightarrow> dt_rejected dt"
    by (auto simp: dt_rejected_def)
  have 2: "\<not> dt_not dt \<and> dt_number dt = Some x \<and> 0 < x \<Longrightarrow>
      \<not> dt_rejected dt \<and> dt_value dt = x"
    by (auto simp: dt_rejected_def dt_value_def)
  show ?thesis
    using 1 2 by (auto simp: Car_update_def EnemyCar_update_def)
qed

text \<open>
  The theorem at \<open>false\<close>, what \<open>Game.animate\<close> passes while nitro is not requested, and
  at \<open>true\<close>, which reads as 1.
\<close>

theorem update_ignores_rejected_dt_witness:
  "dt_not (Flag False) \<and>
   Car_update (Some (no_keys\<lparr>key_w := True\<rparr>)) (Flag False) (Car_new default_config)
     = (Car_new default_config, []) \<and>
   EnemyCar_update sample_curve sample_rnd 0 (Flag False) (Some 0.5) sample_rival
     = (sample_rival, [], 0) \<and>
   \<not> dt_not (Flag True) \<and> dt_number (Flag True) = Some 1 \<and>
   Car_update (Some (no_keys\<lparr>key_w := True\<rparr>)) (Flag True) (Car_new default_config)
     = Car_update (Some (no_keys\<lparr>key_w := True\<rparr>)) (Seconds 1) (Car_new default_config)"
proof -
  have h: "dt_not (Flag False)" "\<not> dt_not (Flag True)" "dt_number (Flag True) = Some 1"
    "(0::real) < 1"
    by simp_all
  show ?thesis
    using h update_ignores_rejected_dt [of "Flag False" "Some (no_keys\<lparr>key_w := True\<rparr>)"
        "Car_new default_config" sample_curve sample_rnd 0 "Some 0.5" sample_rival 0]
      update_ignores_rejected_dt [of "Flag True" "Some (no_keys\<lparr>key_w := True\<rparr>)"
        "Car_new default_config" sample_curve sample_rnd 0 "Some 0.5" sample_rival 1]
    by blast
qed

section \<open>Rubber-banding\<close>

text \<open>
  C9. A rival that is not nitro-active and whose cooldown runs out in this frame, updated
  with a leader progress more than 0.05 ahead of its own, requests nitro and gets it
  whatever the random source holds: the heuristic makes no draw (the counter stays),
  \<open>nitroStart\<close> is the first event of the frame and, when the time step is shorter than the
  nitro duration, the rival ends the frame nitro-active, its timer started and its speed
  pulled toward the nitro speed.
\<close>

theorem rubber_band_nitro:
  assumes "\<not> isNitroActive e" "e_nitroCooldown e \<le> t" "0 < t" "e_progress e + 0.05 < p"
  shows "nitroHeuristic rnd i (Some p) (e\<lparr>e_nitroCooldown := max 0 (e_nitroCooldown e - t)\<rparr>)
           = (e\<lparr>e_nitroCooldown := 0, isNitroActive := True,
                 nitroTimer := nitroDuration (e_config e)\<rparr>, [EvNitroStart], i) \<and>
         hd (fst (snd (EnemyCar_update cv rnd i (Seconds t) (Some p) e))) = EvNitroStart \<and>
         fst (snd (EnemyCar_update cv rnd i (Seconds t) (Some p) e)) \<noteq> [] \<and>
         (t < nitroDuration (e_config e) \<longrightarrow>
            isNitroActive (fst (EnemyCar_update cv rnd i (Seconds t) (Some p) e)) \<and>
            nitroTimer (fst (EnemyCar_update cv rnd i (Seconds t) (Some p) e))
              = nitroDuration (e_config e) - t \<and>
            e_speed (fst (EnemyCar_update cv rnd i (Seconds t) (Some p) e))
              = lerp (e_speed e) (baseSpeed (e_config e) * nitroMultiplier (e_config e))
                  (min 1 (t * 6)))"
proof -
  have m: "max 0 (e_nitroCooldown e - t) = 0"
    using assms by simp
  have h: "nitroHeuristic rnd i (Some p) (e\<lparr>e_nitroCooldown := max 0 (e_nitroCooldown e - t)\<rparr>)
           = (e\<lparr>e_nitroCooldown := 0, isNitroActive := True,
                 nitroTimer := nitroDuration (e_config e)\<rparr>, [EvNitroStart], i)"
    using assms unfolding m by (simp add: nitroHeuristic_def requestNitro_def Let_def)
  have u: "EnemyCar_update cv rnd i (Seconds t) (Some p) e =
     (case nitroDrive rnd i t (e\<lparr>e_nitroCooldown := 0, isNitroActive := True,
                 nitroTimer := nitroDuration (e_config e)\<rparr>) of (e3, evs3, i3) \<Rightarrow>
          case laneSwitch rnd i3 t (advanceProgress t e3) of (e5, i5) \<Rightarrow>
            (placeOnTrack cv e5, [EvNitroStart] @ evs3, i5))"
    using assms(3) h by (simp add: EnemyCar_update_def Let_def)
  show ?thesis
    using h unfolding u
    by (simp add: nitroDrive_def laneSwitch_def advanceProgress_def placeOnTrack_def Let_def
        split: prod.splits)
qed

text \<open>The scenario of the specification: rival progress 0.10, leader progress 0.20.\<close>

theorem rubber_band_nitro_witness:
  "\<not> isNitroActive sample_rival \<and> e_nitroCooldown sample_rival \<le> 0.05 \<and> (0::real) < 0.05 \<and>
   e_progress sample_rival + 0.05 < 0.2 \<and> (0.05::real) < nitroDuration (e_config sample_rival) \<and>
   hd (fst (snd (EnemyCar_update sample_curve sample_rnd 0 (Seconds 0.05) (Some 0.2) sample_rival)))
     = EvNitroStart \<and>
   isNitroActive (fst (EnemyCar_update sample_curve sample_rnd 0 (Seconds 0.05) (Some 0.2) sample_rival))"
proof -
  have h: "\<not> isNitroActive sample_rival" "e_nitroCooldown sample_rival \<le> 0.05" "(0::real) < 0.05"
    "e_progress sample_rival + 0.05 < 0.2"
    by (simp_all add: sample_rival_def)
  have d: "(0.05::real) < nitroDuration (e_config sample_rival)"
    by (simp add: sample_rival_def sample_enemy_config_def)
  show ?thesis
    using h d rubber_band_nitro [OF h, of sample_rnd 0 sample_curve] by blast
qed

section \<open>Saving and restoring\<close>

lemma depleted_car_nitro:
  "nitroAmount depleted_car = 0 \<and> nitroCooldown depleted_car = 0.75 \<and>
   config depleted_car = default_config"
  by (simp add: depleted_car_def Car_update_def update_to_limiter_def nitroStep_def useNitro_def
      Car_new_def default_config_def no_keys_def input_keys_def Let_def split: prod.splits)

lemma Car_fromJSON_toJSON:
  "Car_fromJSON (Some (Car_toJSON a)) b =
      b\<lparr>position := position a, rotation := rotation a, speed := speed a, health := health a,
        nitroAmount := nitroAmount a, progress := progress a\<rparr>"
  by (simp add: Car_fromJSON_def Car_toJSON_def Let_def)

text \<open>
  C5, counterexample. The car that has just burnt its nitro is in cooldown. Saved and
  restored on a new car of the same configuration, it is not: in the next frame, of 0.05
  seconds without input, the original keeps its nitro at 0 while the restored car
  regenerates 0.25.
\<close>

theorem restored_car_differs:
  "config depleted_car = config (Car_new default_config) \<and>
   nitroAmount (fst (Car_update None (Seconds 0.05) depleted_car)) = 0 \<and>
   nitroAmount (fst (Car_update None (Seconds 0.05)
      (Car_fromJSON (Some (Car_toJSON depleted_car)) (Car_new default_config)))) = 0.25 \<and>
   Car_trace (Car_fromJSON (Some (Car_toJSON depleted_car)) (Car_new default_config))
      [(None, Seconds 0.05)] \<noteq> Car_trace depleted_car [(None, Seconds 0.05)]"
proof -
  have a: "nitroAmount (fst (Car_update None (Seconds 0.05) depleted_car)) = 0"
    using depleted_car_nitro
    by (simp add: Car_update_def update_to_limiter_def nitroStep_def regenNitro_def
      input_keys_def no_keys_def Let_def split: prod.splits)
  have b: "nitroAmount (fst (Car_update None (Seconds 0.05)
      (Car_fromJSON (Some (Car_toJSON depleted_car)) (Car_new default_config)))) = 0.25"
    using depleted_car_nitro
    by (simp add: Car_update_def update_to_limiter_def nitroStep_def regenNitro_def
      Car_fromJSON_toJSON Car_new_def default_config_def
      input_keys_def no_keys_def Let_def split: prod.splits)
  have c: "config depleted_car = config (Car_new default_config)"
    using depleted_car_nitro by (simp add: Car_new_def)
  from a b have "fst (Car_update None (Seconds 0.05)
      (Car_fromJSON (Some (Car_toJSON depleted_car)) (Car_new default_config)))
     \<noteq> fst (Car_update None (Seconds 0.05) depleted_car)"
    by auto
  then have "Car_trace (Car_fromJSON (Some (Car_toJSON depleted_car)) (Car_new default_config))
      [(None, Seconds 0.05)] \<noteq> Car_trace depleted_car [(None, Seconds 0.05)]"
    by auto
  with a b c show ?thesis by blast
qed

text \<open>
  C5, as amended. \<open>fromJSON\<close> of what \<open>toJSON\<close> wrote gives the target car the
  position, heading, speed, health, nitro amount and progress of the original. When the
  target also agrees with the original on the fields \<open>toJSON\<close> does not write, the
  restored car is the original, and so are its state and its events in every later frame.
\<close>

theorem restore_roundtrip:
  "position (Car_fromJSON (Some (Car_toJSON a)) b) = position a \<and>
   rotation (Car_fromJSON (Some (Car_toJSON a)) b) = rotation a \<and>
   speed (Car_fromJSON (Some (Car_toJSON a)) b) = speed a \<and>
   health (Car_fromJSON (Some (Car_toJSON a)) b) = health a \<and>
   nitroAmount (Car_fromJSON (Some (Car_toJSON a)) b) = nitroAmount a \<and>
   progress (Car_fromJSON (Some (Car_toJSON a)) b) = progress a \<and>
   (same_unsaved a b \<longrightarrow>
      Car_fromJSON (Some (Car_toJSON a)) b = a \<and>
      Car_trace (Car_fromJSON (Some (Car_toJSON a)) b) fs = Car_trace a fs)"
proof -
  have "same_unsaved a b \<Longrightarrow> Car_fromJSON (Some (Car_toJSON a)) b = a"
    unfolding Car_fromJSON_toJSON by (cases a, cases b) (simp add: same_unsaved_def)
  then show ?thesis
    by (auto simp: Car_fromJSON_toJSON)
qed

theorem restore_roundtrip_witness:
  "same_unsaved ((Car_new default_config)\<lparr>speed := 1, nitroAmount := 40\<rparr>) (Car_new default_config) \<and>
   Car_fromJSON (Some (Car_toJSON ((Car_new default_config)\<lparr>speed := 1, nitroAmount := 40\<rparr>)))
      (Car_new default_config) = (Car_new default_config)\<lparr>speed := 1, nitroAmount := 40\<rparr> \<and>
   Car_trace (Car_fromJSON (Some (Car_toJSON ((Car_new default_config)\<lparr>speed := 1, nitroAmount := 40\<rparr>)))
      (Car_new default_config)) [(Some no_keys, Seconds 0.05)]
     = Car_trace ((Car_new default_config)\<lparr>speed := 1, nitroAmount := 40\<rparr>)
         [(Some no_keys, Seconds 0.05)]"
proof -
  have h: "same_unsaved ((Car_new default_config)\<lparr>speed := 1, nitroAmount := 40\<rparr>)
             (Car_new default_config)"
    by (simp add: same_unsaved_def)
  show ?thesis
    using h restore_roundtrip [of "(Car_new default_config)\<lparr>speed := 1, nitroAmount := 40\<rparr>"
        "Car_new default_config" "[(Some no_keys, Seconds 0.05)]"]
    by blast
qed

lemma set_rotation:
  "(case v of JNum x \<Rightarrow> c\<lparr>rotation := x\<rparr> | _ \<Rightarrow> c) = c\<lparr>rotation := number_or v (rotation c)\<rparr>"
  by (cases v) (simp_all add: number_or_def)

lemma set_speed:
  "(case v of JNum x \<Rightarrow> c\<lparr>speed := x\<rparr> | _ \<Rightarrow> c) = c\<lparr>speed := number_or v (speed c)\<rparr>"
  by (cases v) (simp_all add: number_or_def)

lemma set_health:
  "(case v of JNum x \<Rightarrow> c\<lparr>health := x\<rparr> | _ \<Rightarrow> c) = c\<lparr>health := number_or v (health c)\<rparr>"
  by (cases v) (simp_all add: number_or_def)

lemma set_nitro:
  "(case v of JNum x \<Rightarrow> c\<lparr>nitroAmount := x\<rparr> | _ \<Rightarrow> c)
     = c\<lparr>nitroAmount := number_or v (nitroAmount c)\<rparr>"
  by (cases v) (simp_all add: number_or_def)

lemma set_progress:
  "(case v of JNum x \<Rightarrow> c\<lparr>progress := x\<rparr> | _ \<Rightarrow> c) = c\<lparr>progress := number_or v (progress c)\<rparr>"
  by (cases v) (simp_all add: number_or_def)

lemma set_position:
  "(case v of Some p \<Rightarrow> c\<lparr>position := p\<rparr> | None \<Rightarrow> c)
     = c\<lparr>position := case_option (position c) (\<lambda>p. p) v\<rparr>"
  by (cases v) simp_all

lemma Car_fromJSON_fields:
  "Car_fromJSON (Some d) c =
     c\<lparr>position := (case j_position d of Some p \<Rightarrow> p | None \<Rightarrow> position c),
       rotation := number_or (j_rotation d) (rotation c),
       speed := number_or (j_speed d) (speed c),
       health := number_or (j_health d) (health c),
       nitroAmount := number_or (j_nitro d) (nitroAmount c),
       progress := number_or (j_progress d) (progress c)\<rparr>"
  unfolding Car_fromJSON_def Let_def set_rotation set_speed set_health set_nitro set_progress
    set_position
  by simp

lemma EnemyCar_fromJSON_fields:
  "EnemyCar_fromJSON (Some ed) s =
     s\<lparr>p_progress := value_or (ej_progress ed) (p_progress s),
       p_laneOffset := value_or (ej_laneOffset ed) (p_laneOffset s),
       p_speed := value_or (ej_speed ed) (p_speed s),
       p_isNitroActive := value_or (ej_isNitroActive ed) (p_isNitroActive s)\<rparr>"
  by (simp add: EnemyCar_fromJSON_def Let_def value_or_def)

text \<open>
  C10, counterexample. \<open>EnemyCar.fromJSON\<close> tests a value with \<open>!= null\<close> only: a
  string under \<open>progress\<close>, or a number under \<open>isNitroActive\<close>, is not of the expected
  type and is stored all the same.
\<close>

theorem enemy_fromJSON_stores_any_type:
  "p_progress (enemy_object sample_rival) = JNum 0.1 \<and>
   p_progress (EnemyCar_fromJSON (Some (empty_enemy_json\<lparr>ej_progress := JStr ''fast''\<rparr>))
      (enemy_object sample_rival)) = JStr ''fast'' \<and>
   p_isNitroActive (EnemyCar_fromJSON (Some (empty_enemy_json\<lparr>ej_isNitroActive := JNum 7\<rparr>))
      (enemy_object sample_rival)) = JNum 7"
  by (simp add: EnemyCar_fromJSON_def enemy_object_def empty_enemy_json_def sample_rival_def Let_def)

text \<open>
  C10, as amended. \<open>Car.fromJSON\<close> overwrites the position when the entry is there, and
  each of rotation, speed, health, nitro amount and progress exactly when its entry is a
  number. \<open>EnemyCar.fromJSON\<close> overwrites each of progress, lane offset, speed and
  nitro-active flag exactly when its entry is neither null nor undefined, whatever its
  type. Both leave every other field as it was, and with \<open>{}\<close> or without an argument
  they change nothing.
\<close>

theorem fromJSON_frame:
  "Car_fromJSON (Some d) c =
     c\<lparr>position := (case j_position d of Some p \<Rightarrow> p | None \<Rightarrow> position c),
       rotation := number_or (j_rotation d) (rotation c),
       speed := number_or (j_speed d) (speed c),
       health := number_or (j_health d) (health c),
       nitroAmount := number_or (j_nitro d) (nitroAmount c),
       progress := number_or (j_progress d) (progress c)\<rparr> \<and>
   Car_fromJSON (Some empty_car_json) c = c \<and> Car_fromJSON None c = c \<and>
   EnemyCar_fromJSON (Some ed) s =
     s\<lparr>p_progress := value_or (ej_progress ed) (p_progress s),
       p_laneOffset := value_or (ej_laneOffset ed) (p_laneOffset s),
       p_speed := value_or (ej_speed ed) (p_speed s),
       p_isNitroActive := value_or (ej_isNitroActive ed) (p_isNitroActive s)\<rparr> \<and>
   enemy_props.more (EnemyCar_fromJSON (Some ed) s) = enemy_props.more s \<and>
   EnemyCar_fromJSON (Some empty_enemy_json) s = s \<and> EnemyCar_fromJSON None s = s"
proof -
  have 2: "Car_fromJSON (Some empty_car_json) c = c" "Car_fromJSON None c = c"
    by (simp_all add: Car_fromJSON_def empty_car_json_def Let_def)
  have 4: "enemy_props.more (EnemyCar_fromJSON (Some ed) s) = enemy_props.more s"
    unfolding EnemyCar_fromJSON_fields by simp
  have 5: "EnemyCar_fromJSON (Some empty_enemy_json) s = s" "EnemyCar_fromJSON None s = s"
    by (simp_all add: EnemyCar_fromJSON_def empty_enemy_json_def Let_def)
  from Car_fromJSON_fields [of d c] 2 EnemyCar_fromJSON_fields [of ed s] 4 5 show ?thesis
    by (intro conjI)
qed

section \<open>Destructible props\<close>

lemma visit_destructibles:
  "destructibles (track (visitDestructible bt k g)) =
     (if destroyedNow bt g k
      then (destructibles (track g))[k := (destructibles (track g) ! k)\<lparr>hit := True, visible := False\<rparr>]
      else destructibles (track g))"
  by (simp add: visitDestructible_def triggerDestruction_def testSucceeds_def destroyedNow_def
      hitAt_def Let_def)

lemma visit_player:
  "position (player (visitDestructible bt k g)) = position (player g)"
  "meshPose (player (visitDestructible bt k g)) = meshPose (player g)"
  "speed (player (visitDestructible bt k g)) =
     speed (player g) * (if destroyedNow bt g k then 0.85 else 1)"
  "score (visitDestructible bt k g) =
     score g + (if destroyedNow bt g k then scoreAward (destructibles (track g) ! k) else 0)"
  by (simp_all add: visitDestructible_def triggerDestruction_def testSucceeds_def destroyedNow_def
      hitAt_def meshPose_def Let_def)

lemma visit_length [simp]:
  "length (destructibles (track (visitDestructible bt k g))) = length (destructibles (track g))"
  by (simp add: visit_destructibles)

lemma visit_other:
  "i \<noteq> k \<Longrightarrow> destructibles (track (visitDestructible bt k g)) ! i = destructibles (track g) ! i"
  by (simp add: visit_destructibles)

lemma visit_destroyedNow:
  "i \<noteq> k \<Longrightarrow> destroyedNow bt (visitDestructible bt k g) i = destroyedNow bt g i"
  by (simp add: destroyedNow_def hitAt_def testSucceeds_def visit_other visit_player)

lemma visit_hit:
  "k < length (destructibles (track g)) \<Longrightarrow>
   hitAt (visitDestructible bt k g) k = (hitAt g k \<or> destroyedNow bt g k)"
  by (simp add: visit_destructibles hitAt_def)

lemma visit_award:
  "i < length (destructibles (track g)) \<Longrightarrow>
   scoreAward (destructibles (track (visitDestructible bt k g)) ! i)
     = scoreAward (destructibles (track g) ! i)"
  by (cases "i = k") (simp_all add: visit_destructibles scoreAward_def)

lemma loop_length [simp]:
  "length (destructibles (track (destructiblesLoop bt k g))) = length (destructibles (track g))"
  by (induction k arbitrary: g) simp_all

lemma loop_hit:
  "k \<le> length (destructibles (track g)) \<Longrightarrow> i < length (destructibles (track g)) \<Longrightarrow>
   hitAt (destructiblesLoop bt k g) i = (hitAt g i \<or> (i < k \<and> destroyedNow bt g i))"
proof (induction k arbitrary: g)
  case 0
  then show ?case by simp
next
  case (Suc k)
  let ?g = "visitDestructible bt k g"
  have "hitAt (destructiblesLoop bt k ?g) i = (hitAt ?g i \<or> (i < k \<and> destroyedNow bt ?g i))"
    using Suc.prems by (intro Suc.IH) simp_all
  moreover have "i \<noteq> k \<Longrightarrow> hitAt ?g i = hitAt g i"
    by (simp add: hitAt_def visit_other)
  moreover have "hitAt ?g k = (hitAt g k \<or> destroyedNow bt g k)"
    using Suc.prems by (intro visit_hit) simp
  moreover have "i < k \<Longrightarrow> destroyedNow bt ?g i = destroyedNow bt g i"
    by (simp add: visit_destroyedNow)
  ultimately show ?case
    by (cases "i = k") (auto simp: less_Suc_eq)
qed

lemma loop_award:
  "i < length (destructibles (track g)) \<Longrightarrow>
   scoreAward (destructibles (track (destructiblesLoop bt k g)) ! i)
     = scoreAward (destructibles (track g) ! i)"
  by (induction k arbitrary: g) (simp_all add: visit_award)

lemma loop_score:
  "k \<le> length (destructibles (track g)) \<Longrightarrow>
   score (destructiblesLoop bt k g) =
     score g + (\<Sum>i<k. if destroyedNow bt g i then scoreAward (destructibles (track g) ! i) else 0)"
proof (induction k arbitrary: g)
  case 0
  then show ?case by simp
next
  case (Suc k)
  let ?g = "visitDestructible bt k g"
  have "score (destructiblesLoop bt k ?g) =
     score ?g + (\<Sum>i<k. if destroyedNow bt ?g i then scoreAward (destructibles (track ?g) ! i) else 0)"
    using Suc.prems by (intro Suc.IH) simp
  also have "(\<Sum>i<k. if destroyedNow bt ?g i then scoreAward (destructibles (track ?g) ! i) else 0)
     = (\<Sum>i<k. if destroyedNow bt g i then scoreAward (destructibles (track g) ! i) else 0)"
    by (intro sum.cong) (simp_all add: visit_destroyedNow visit_other)
  finally show ?case
    by (simp add: visit_player)
qed

lemma loop_speed:
  "k \<le> length (destructibles (track g)) \<Longrightarrow>
   speed (player (destructiblesLoop bt k g)) =
     speed (player g) * 0.85 ^ card {i. i < k \<and> destroyedNow bt g i}"
proof (induction k arbitrary: g)
  case 0
  then show ?case by simp
next
  case (Suc k)
  let ?g = "visitDestructible bt k g"
  have "speed (player (destructiblesLoop bt k ?g)) =
     speed (player ?g) * 0.85 ^ card {i. i < k \<and> destroyedNow bt ?g i}"
    using Suc.prems by (intro Suc.IH) simp
  moreover have "{i. i < k \<and> destroyedNow bt ?g i} = {i. i < k \<and> destroyedNow bt g i}"
    by (auto simp: visit_destroyedNow)
  moreover have "{i. i < Suc k \<and> destroyedNow bt g i} =
     (if destroyedNow bt g k then insert k {i. i < k \<and> destroyedNow bt g i}
      else {i. i < k \<and> destroyedNow bt g i})"
    by (auto simp: less_Suc_eq)
  moreover have "finite {i. i < k \<and> destroyedNow bt g i}" "k \<notin> {i. i < k \<and> destroyedNow bt g i}"
    by simp_all
  ultimately show ?case
    by (simp add: visit_player)
qed

lemma collideRival_keeps:
  "track (state_of (collideRival clock j g)) = track g"
  "score (state_of (collideRival clock j g)) = score g"
  "gameState (state_of (collideRival clock j g)) = gameState g"
  by (simp_all add: collideRival_def EnemyCar_handleCollisionSimple_def
      Car_handleCollisionSimple_def handleCollisionWithObject_def applyDamage_def
      onDestroyed_def Let_def)

lemma rivalsLoop_keeps:
  "track (state_of (rivalsLoop clock js g)) = track g \<and>
   score (state_of (rivalsLoop clock js g)) = score g \<and>
   gameState (state_of (rivalsLoop clock js g)) = gameState g"
proof (induction js arbitrary: g)
  case Nil
  show ?case by simp
next
  case (Cons j js)
  show ?case
  proof (cases "collideRival clock j g")
    case (Completed g1)
    from collideRival_keeps [of clock j g]
    have "track g1 = track g" "score g1 = score g" "gameState g1 = gameState g"
      unfolding Completed by simp_all
    with Cons.IH [of g1] Completed show ?thesis by simp
  next
    case (Threw g1)
    from collideRival_keeps [of clock j g]
    have "track g1 = track g" "score g1 = score g" "gameState g1 = gameState g"
      unfolding Threw by simp_all
    with Threw show ?thesis by simp
  qed
qed

lemma collidePillar_keeps [simp]:
  "track (collidePillar p g) = track g"
  "score (collidePillar p g) = score g"
  "gameState (collidePillar p g) = gameState g"
  by (simp_all add: collidePillar_def Let_def)

lemma fold_collidePillar_keeps [simp]:
  "track (fold collidePillar ps g) = track g"
  "score (fold collidePillar ps g) = score g"
  "gameState (fold collidePillar ps g) = gameState g"
  by (induction ps arbitrary: g) simp_all

lemma respawnPlayer_keeps [simp]:
  "track (respawnPlayer g) = track g"
  "score (respawnPlayer g) = score g"
  "gameState (respawnPlayer g) = gameState g"
  by (simp_all add: respawnPlayer_def)

lemma loop_gameState [simp]:
  "gameState (destructiblesLoop bt k g) = gameState g"
  by (induction k arbitrary: g)
     (simp_all add: visitDestructible_def triggerDestruction_def Let_def)

lemma after_props_keeps:
  "track (state_of (case rivalsLoop clock js g1 of
            Threw g2 \<Rightarrow> Threw g2
          | Completed g2 \<Rightarrow>
              let g3 = fold collidePillar (colliders (track g2)) g2
              in Completed (if fst (snd (position (player g3))) < - 40 then respawnPlayer g3
                            else g3))) = track g1 \<and>
   score (state_of (case rivalsLoop clock js g1 of
            Threw g2 \<Rightarrow> Threw g2
          | Completed g2 \<Rightarrow>
              let g3 = fold collidePillar (colliders (track g2)) g2
              in Completed (if fst (snd (position (player g3))) < - 40 then respawnPlayer g3
                            else g3))) = score g1 \<and>
   gameState (state_of (case rivalsLoop clock js g1 of
            Threw g2 \<Rightarrow> Threw g2
          | Completed g2 \<Rightarrow>
              let g3 = fold collidePillar (colliders (track g2)) g2
              in Completed (if fst (snd (position (player g3))) < - 40 then respawnPlayer g3
                            else g3))) = gameState g1"
proof (cases "rivalsLoop clock js g1")
  case (Completed g2)
  from rivalsLoop_keeps [of clock js g1]
  have "track g2 = track g1" "score g2 = score g1" "gameState g2 = gameState g1"
    unfolding Completed by simp_all
  then show ?thesis
    unfolding Completed by (simp add: Let_def)
next
  case (Threw g2)
  from rivalsLoop_keeps [of clock js g1]
  have "track g2 = track g1" "score g2 = score g1" "gameState g2 = gameState g1"
    unfolding Threw by simp_all
  then show ?thesis
    unfolding Threw by simp
qed

lemma updateCollisions_track:
  "track (state_of (updateCollisions bt clock g)) =
     (if gameState g = PLAYING
      then track (destructiblesLoop bt (length (destructibles (track g))) g) else track g)"
  by (simp add: updateCollisions_def Let_def after_props_keeps)

lemma updateCollisions_score:
  "score (state_of (updateCollisions bt clock g)) =
     (if gameState g = PLAYING
      then score (destructiblesLoop bt (length (destructibles (track g))) g) else score g)"
  by (simp add: updateCollisions_def Let_def after_props_keeps)

lemma updateCollisions_gameState [simp]:
  "gameState (state_of (updateCollisions bt clock g)) = gameState g"
  by (simp add: updateCollisions_def Let_def after_props_keeps)

lemma hitAt_player [simp]: "hitAt (g\<lparr>player := c\<rparr>) i = hitAt g i"
  by (simp add: hitAt_def)

lemma frame_length [simp]:
  "length (destructibles (track (collisionFrame bt g f))) = length (destructibles (track g))"
  by (simp add: collisionFrame_def updateCollisions_track)

lemma frame_hit:
  assumes "i < length (destructibles (track g))"
  shows "hitAt (collisionFrame bt g f) i =
     (hitAt g i \<or> (gameState g = PLAYING \<and> testSucceeds bt (fst f) (destructibles (track g) ! i)))"
proof (cases "gameState g = PLAYING")
  case True
  let ?g = "g\<lparr>player := fst f\<rparr>"
  have "hitAt (destructiblesLoop bt (length (destructibles (track ?g))) ?g) i =
      (hitAt ?g i \<or> (i < length (destructibles (track ?g)) \<and> destroyedNow bt ?g i))"
    using assms by (intro loop_hit) simp_all
  then show ?thesis
    using True assms
    by (auto simp: collisionFrame_def hitAt_def updateCollisions_track destroyedNow_def)
next
  case False
  then show ?thesis
    by (simp add: collisionFrame_def hitAt_def updateCollisions_track)
qed

lemma frame_award:
  "i < length (destructibles (track g)) \<Longrightarrow>
   scoreAward (destructibles (track (collisionFrame bt g f)) ! i)
     = scoreAward (destructibles (track g) ! i)"
  using loop_award [of i "g\<lparr>player := fst f\<rparr>" bt "length (destructibles (track g))"]
  by (simp add: collisionFrame_def updateCollisions_track)

lemma frame_score:
  "score (collisionFrame bt g f) =
     score g + (\<Sum>i<length (destructibles (track g)).
        if \<not> hitAt g i \<and> hitAt (collisionFrame bt g f) i
        then scoreAward (destructibles (track g) ! i) else 0)"
proof (cases "gameState g = PLAYING")
  case True
  let ?g = "g\<lparr>player := fst f\<rparr>"
  let ?n = "length (destructibles (track g))"
  have "score (destructiblesLoop bt ?n ?g) =
     score ?g + (\<Sum>i<?n. if destroyedNow bt ?g i then scoreAward (destructibles (track ?g) ! i) else 0)"
    by (intro loop_score) simp
  also have "(\<Sum>i<?n. if destroyedNow bt ?g i then scoreAward (destructibles (track ?g) ! i) else 0)
    = (\<Sum>i<?n. if \<not> hitAt g i \<and> hitAt (collisionFrame bt g f) i
        then scoreAward (destructibles (track g) ! i) else 0)"
    using True by (intro sum.cong) (auto simp: frame_hit destroyedNow_def)
  finally show ?thesis
    using True by (simp add: collisionFrame_def updateCollisions_score)
next
  case False
  then have "(\<Sum>i<length (destructibles (track g)).
        if \<not> hitAt g i \<and> hitAt (collisionFrame bt g f) i
        then scoreAward (destructibles (track g) ! i) else 0) = 0"
    by (intro sum.neutral) (simp add: frame_hit)
  with False show ?thesis
    by (simp add: collisionFrame_def updateCollisions_score)
qed

lemma run_length [simp]:
  "length (destructibles (track (collisionRun bt g fs))) = length (destructibles (track g))"
  by (induction fs arbitrary: g) simp_all

lemma run_hit_stays:
  "i < length (destructibles (track g)) \<Longrightarrow> hitAt g i \<Longrightarrow>
   transitions bt g fs i = 0 \<and> hitAt (collisionRun bt g fs) i"
proof (induction fs arbitrary: g)
  case Nil
  then show ?case by simp
next
  case (Cons f fs)
  from Cons.prems have "hitAt (collisionFrame bt g f) i"
    by (simp add: frame_hit)
  with Cons.IH [of "collisionFrame bt g f"] Cons.prems show ?case by simp
qed

lemma run_transitions:
  "i < length (destructibles (track g)) \<Longrightarrow>
   transitions bt g fs i \<le> 1 \<and>
   (hitAt (collisionRun bt g fs) i \<longleftrightarrow> hitAt g i \<or> transitions bt g fs i = 1)"
proof (induction fs arbitrary: g)
  case Nil
  then show ?case by simp
next
  case (Cons f fs)
  let ?g = "collisionFrame bt g f"
  have n: "i < length (destructibles (track ?g))"
    using Cons.prems by simp
  show ?case
  proof (cases "hitAt ?g i")
    case True
    from run_hit_stays [OF n True] show ?thesis
      using True by auto
  next
    case False
    then have "\<not> hitAt g i"
      using Cons.prems by (simp add: frame_hit)
    with Cons.IH [OF n] False show ?thesis by simp
  qed
qed

lemma run_award:
  "i < length (destructibles (track g)) \<Longrightarrow>
   scoreAward (destructibles (track (collisionRun bt g fs)) ! i)
     = scoreAward (destructibles (track g) ! i)"
  by (induction fs arbitrary: g) (simp_all add: frame_award)

lemma run_score:
  "score (collisionRun bt g fs) =
     score g + (\<Sum>i<length (destructibles (track g)).
        real (transitions bt g fs i) * scoreAward (destructibles (track g) ! i))"
proof (induction fs arbitrary: g)
  case Nil
  then show ?case by simp
next
  case (Cons f fs)
  let ?g = "collisionFrame bt g f"
  let ?n = "length (destructibles (track g))"
  have "score (collisionRun bt ?g fs) =
     score ?g + (\<Sum>i<?n. real (transitions bt ?g fs i) * scoreAward (destructibles (track ?g) ! i))"
    using Cons.IH [of ?g] by simp
  also have "(\<Sum>i<?n. real (transitions bt ?g fs i) * scoreAward (destructibles (track ?g) ! i))
     = (\<Sum>i<?n. real (transitions bt ?g fs i) * scoreAward (destructibles (track g) ! i))"
    by (intro sum.cong) (simp_all add: frame_award)
  also have "score ?g = score g + (\<Sum>i<?n.
        if \<not> hitAt g i \<and> hitAt ?g i then scoreAward (destructibles (track g) ! i) else 0)"
    by (rule frame_score)
  finally have "score (collisionRun bt ?g fs) = score g +
     (\<Sum>i<?n. (if \<not> hitAt g i \<and> hitAt ?g i then scoreAward (destructibles (track g) ! i) else 0)
        + real (transitions bt ?g fs i) * scoreAward (destructibles (track g) ! i))"
    by (simp add: sum.distrib)
  also have "(\<Sum>i<?n. (if \<not> hitAt g i \<and> hitAt ?g i then scoreAward (destructibles (track g) ! i) else 0)
        + real (transitions bt ?g fs i) * scoreAward (destructibles (track g) ! i))
     = (\<Sum>i<?n. real (transitions bt g (f # fs) i) * scoreAward (destructibles (track g) ! i))"
    by (intro sum.cong) (simp_all add: algebra_simps)
  finally show ?case by simp
qed

text \<open>
  C7. Over a run of collision passes, with the player car anywhere before each pass and
  whatever the exact box test answers: a prop goes from not hit to hit in at most one frame;
  it is hit at the end exactly when it was hit at the start or made that one transition; a
  prop that is already hit makes none and is skipped by the loop. The score at the end is
  the score at the start plus, for each prop, its award times its number of transitions
  (0 or 1): the award is added once. The award is \<open>scoreValue || 100\<close>, the configured
  value unless that is 0. In a pass where the game is in play, a prop not yet hit whose test
  succeeds becomes hit, and the loop over the props leaves the speed of the player
  multiplied by 0.85 once for every prop destroyed in that pass.
\<close>

theorem destructible_hit_once:
  assumes "i < length (destructibles (track g))"
  shows "transitions bt g fs i \<le> 1 \<and>
    (hitAt (collisionRun bt g fs) i \<longleftrightarrow> hitAt g i \<or> transitions bt g fs i = 1) \<and>
    (hitAt g i \<longrightarrow> transitions bt g fs i = 0 \<and> visitDestructible bt i g = g) \<and>
    score (collisionRun bt g fs) =
      score g + (\<Sum>k<length (destructibles (track g)).
         real (transitions bt g fs k) * scoreAward (destructibles (track g) ! k)) \<and>
    (scoreValue (destructibles (track g) ! i) \<noteq> 0 \<longrightarrow>
       scoreAward (destructibles (track g) ! i) = scoreValue (destructibles (track g) ! i)) \<and>
    (\<not> hitAt g i \<and> gameState g = PLAYING \<and>
       testSucceeds bt (fst f) (destructibles (track g) ! i) \<longrightarrow>
         hitAt (collisionFrame bt g f) i) \<and>
    speed (player (destructiblesLoop bt (length (destructibles (track g))) g)) =
      speed (player g) * 0.85 ^ card {k. k < length (destructibles (track g)) \<and> destroyedNow bt g k}"
proof -
  have "hitAt g i \<longrightarrow> transitions bt g fs i = 0 \<and> visitDestructible bt i g = g"
    using run_hit_stays [OF assms] by (simp add: visitDestructible_def hitAt_def)
  moreover have "scoreValue (destructibles (track g) ! i) \<noteq> 0 \<longrightarrow>
       scoreAward (destructibles (track g) ! i) = scoreValue (destructibles (track g) ! i)"
    by (simp add: scoreAward_def)
  moreover have "\<not> hitAt g i \<and> gameState g = PLAYING \<and>
       testSucceeds bt (fst f) (destructibles (track g) ! i) \<longrightarrow>
         hitAt (collisionFrame bt g f) i"
    using assms by (simp add: frame_hit)
  moreover have "speed (player (destructiblesLoop bt (length (destructibles (track g))) g)) =
      speed (player g) * 0.85 ^ card {k. k < length (destructibles (track g)) \<and> destroyedNow bt g k}"
    by (rule loop_speed) simp
  ultimately show ?thesis
    using run_transitions [OF assms, of bt fs] run_score [of bt g fs] by blast
qed

text \<open>
  The theorem on a game with one prop (worth 100) whose test succeeds in two frames in a
  row: one transition, and the score goes from 0 to 100.
\<close>

theorem destructible_hit_once_witness:
  "(0::nat) < length (destructibles (track (sample_game\<lparr>rivals := []\<rparr>))) \<and>
   transitions always_intersects (sample_game\<lparr>rivals := []\<rparr>)
      [(player sample_game, constant_clock 1000), (player sample_game, constant_clock 1016)] 0 = 1 \<and>
   hitAt (collisionRun always_intersects (sample_game\<lparr>rivals := []\<rparr>)
      [(player sample_game, constant_clock 1000), (player sample_game, constant_clock 1016)]) 0 \<and>
   score (collisionRun always_intersects (sample_game\<lparr>rivals := []\<rparr>)
      [(player sample_game, constant_clock 1000), (player sample_game, constant_clock 1016)]) = 100"
proof -
  let ?g = "sample_game\<lparr>rivals := []\<rparr>"
  let ?fs = "[(player sample_game, constant_clock 1000), (player sample_game, constant_clock 1016)]"
  have h: "(0::nat) < length (destructibles (track ?g))"
    by (simp add: sample_game_def)
  have t: "transitions always_intersects ?g ?fs 0 = 1"
    by (simp add: collisionFrame_def updateCollisions_def visitDestructible_def
      triggerDestruction_def hitAt_def sample_game_def always_intersects_def meshPose_def
      distanceToSquared_def lengthSq_def subVectors_def Car_new_def default_config_def
      scoreAward_def Let_def)
  have n: "length (destructibles (track ?g)) = 1" "score ?g = 0"
    "scoreAward (destructibles (track ?g) ! 0) = 100"
    by (simp_all add: sample_game_def scoreAward_def)
  from destructible_hit_once [OF h, of always_intersects ?fs]
  have "hitAt (collisionRun always_intersects ?g ?fs) 0 \<longleftrightarrow>
          hitAt ?g 0 \<or> transitions always_intersects ?g ?fs 0 = 1"
    and "score (collisionRun always_intersects ?g ?fs) =
      score ?g + (\<Sum>k<length (destructibles (track ?g)).
         real (transitions always_intersects ?g ?fs k) * scoreAward (destructibles (track ?g) ! k))"
    by blast+
  with h t n show ?thesis by simp
qed

section \<open>The checkpoint latch\<close>

lemma raceFrame_positions [simp]:
  "halfwayPos (raceFrame g f) = halfwayPos g"
  "startLinePos (raceFrame g f) = startLinePos g"
  by (simp_all add: raceFrame_def updateRaceLogic_def updateLapTimer_def crossFinishLine_def
      armCheckpoint_def updateProgress_def finishRace_def Let_def)

lemma raceFrame_lap_increment:
  "lap (raceFrame g f) \<noteq> lap g \<Longrightarrow>
   lap (raceFrame g f) = lap g + 1 \<and> \<not> checkpointReached (raceFrame g f)"
  by (simp add: raceFrame_def updateRaceLogic_def updateLapTimer_def crossFinishLine_def
      armCheckpoint_def updateProgress_def finishRace_def Let_def split: if_splits)

lemma raceFrame_unarmed:
  "\<not> checkpointReached g \<Longrightarrow> \<not> distanceTo (fst f) (halfwayPos g) < 80 \<Longrightarrow>
   lap (raceFrame g f) = lap g \<and> \<not> checkpointReached (raceFrame g f)"
  by (simp add: raceFrame_def updateRaceLogic_def updateLapTimer_def crossFinishLine_def
      armCheckpoint_def updateProgress_def finishRace_def Let_def split: if_splits)

lemma raceRun_unarmed:
  "\<not> checkpointReached g \<Longrightarrow> \<forall>q \<in> set fs. \<not> distanceTo (fst q) (halfwayPos g) < 80 \<Longrightarrow>
   lap (raceRun g fs) = lap g \<and> \<not> checkpointReached (raceRun g fs)"
proof (induction fs arbitrary: g)
  case Nil
  then show ?case by simp
next
  case (Cons f fs)
  from Cons.prems have "lap (raceFrame g f) = lap g \<and> \<not> checkpointReached (raceFrame g f)"
    by (intro raceFrame_unarmed) simp_all
  with Cons.IH [of "raceFrame g f"] Cons.prems show ?case by simp
qed

text \<open>
  C4. When a step of the race logic changes the lap counter, it adds one and leaves the
  checkpoint latch consumed; and however many steps follow, with the player anywhere but
  within 80 of the quarter-point, the lap counter stays where it is. So between two lap
  increments there is a frame, after the first and up to the second, in which the player
  was within the checkpoint radius of the quarter-point.
\<close>

theorem lap_needs_checkpoint:
  assumes "lap (raceFrame g f) \<noteq> lap g"
    and "\<forall>q \<in> set fs. \<not> distanceTo (fst q) (halfwayPos g) < 80"
  shows "lap (raceFrame g f) = lap g + 1 \<and> \<not> checkpointReached (raceFrame g f) \<and>
         lap (raceRun (raceFrame g f) fs) = lap (raceFrame g f)"
proof -
  from raceFrame_lap_increment [OF assms(1)]
  have a: "lap (raceFrame g f) = lap g + 1" "\<not> checkpointReached (raceFrame g f)" by simp_all
  from raceRun_unarmed [OF a(2), of fs] assms(2)
  have "lap (raceRun (raceFrame g f) fs) = lap (raceFrame g f)" by simp
  with a show ?thesis by simp
qed

lemma sqrt_less_80: "sqrt x < 80 \<longleftrightarrow> x < 6400"
proof -
  have "sqrt (80 * 80) = 80" by simp
  then have "sqrt x < 80 \<longleftrightarrow> sqrt x < sqrt 6400" by simp
  then show ?thesis by (simp only: real_sqrt_less_iff)
qed

text \<open>
  The theorem on the sample game: the player, armed, stands on the start line and gets lap
  2; it then stays around the start line for two more frames, and the lap is still 2.
\<close>

theorem lap_needs_checkpoint_witness:
  "lap (raceFrame sample_game ((0, 0, 0), 5000)) \<noteq> lap sample_game \<and>
   \<not> distanceTo (10, 0, 0) (halfwayPos sample_game) < 80 \<and>
   \<not> distanceTo (0, 0, 0) (halfwayPos sample_game) < 80 \<and>
   lap (raceFrame sample_game ((0, 0, 0), 5000)) = 2 \<and>
   lap (raceRun (raceFrame sample_game ((0, 0, 0), 5000))
          [((10, 0, 0), 5016), ((0, 0, 0), 5032)]) = 2"
proof -
  have l: "lap (raceFrame sample_game ((0, 0, 0), 5000)) = 2"
    by (simp add: raceFrame_def updateRaceLogic_def updateLapTimer_def crossFinishLine_def
      armCheckpoint_def updateProgress_def finishRace_def Let_def sample_game_def
      distanceTo_def distanceToSquared_def lengthSq_def subVectors_def)
  have h1: "lap (raceFrame sample_game ((0, 0, 0), 5000)) \<noteq> lap sample_game"
    unfolding l by (simp add: sample_game_def)
  have d: "\<not> distanceTo (10, 0, 0) (halfwayPos sample_game) < 80"
    "\<not> distanceTo (0, 0, 0) (halfwayPos sample_game) < 80"
    by (simp_all add: sample_game_def distanceTo_def distanceToSquared_def lengthSq_def
        subVectors_def sqrt_less_80)
  then have h2: "\<forall>q \<in> set [((10, 0, 0), 5016), ((0, 0, 0), 5032::real)].
      \<not> distanceTo (fst q) (halfwayPos sample_game) < 80"
    by simp
  from lap_needs_checkpoint [OF h1 h2] l h1 d show ?thesis
    by simp
qed

section \<open>Player against rival\<close>

lemma lengthSq_nonneg: "0 \<le> lengthSq v"
  by (cases v) (simp add: lengthSq_def)

lemma vlength_zero_iff: "vlength v = 0 \<longleftrightarrow> v = (0, 0, 0)"
proof (cases v)
  case (fields a b c)
  have "a * a + b * b + c * c = 0 \<longleftrightarrow> a = 0 \<and> b = 0 \<and> c = 0"
  proof
    assume z: "a * a + b * b + c * c = 0"
    have "0 \<le> a * a" "0 \<le> b * b" "0 \<le> c * c" by simp_all
    with z have "a * a = 0" "b * b = 0" "c * c = 0" by linarith+
    then show "a = 0 \<and> b = 0 \<and> c = 0" by simp
  qed simp
  with fields show ?thesis
    by (simp add: vlength_def lengthSq_def)
qed

lemma normalize_zero: "normalize (0, 0, 0) = (0, 0, 0)"
  by (simp add: normalize_def vlength_def lengthSq_def)

lemma normalize_unit:
  assumes "v \<noteq> (0, 0, 0)"
  shows "vlength (normalize v) = 1"
proof (cases v)
  case (fields a b c)
  define l where "l = vlength v"
  have l0: "l \<noteq> 0" using assms by (simp add: l_def vlength_zero_iff)
  have ll: "l * l = a * a + b * b + c * c"
    using lengthSq_nonneg [of v] fields by (simp add: l_def vlength_def lengthSq_def)
  have n: "normalize v = (a / l, b / l, c / l)"
    using l0 fields by (simp add: normalize_def l_def Let_def)
  have "(a / l) * (a / l) + (b / l) * (b / l) + (c / l) * (c / l)
        = (a * a + b * b + c * c) / (l * l)"
    by (simp add: add_divide_distrib)
  also have "\<dots> = (l * l) / (l * l)" by (simp only: ll)
  also have "\<dots> = 1" using l0 by simp
  finally show ?thesis
    unfolding n by (simp add: vlength_def lengthSq_def)
qed

lemma vlength_scaled:
  assumes "0 \<le> k"
  shows "vlength (multiplyScalar d (- k)) = k * vlength d"
proof (cases d)
  case (fields a b c)
  have "a * - k * (a * - k) + b * - k * (b * - k) + c * - k * (c * - k)
        = (k * k) * (a * a + b * b + c * c)"
    by (simp add: algebra_simps)
  then have "vlength (multiplyScalar d (- k)) = sqrt ((k * k) * (a * a + b * b + c * c))"
    using fields by (simp add: vlength_def lengthSq_def multiplyScalar_def)
  also have "\<dots> = k * sqrt (a * a + b * b + c * c)"
    using assms by (simp add: real_sqrt_mult)
  finally show ?thesis
    using fields by (simp add: vlength_def lengthSq_def)
qed

lemma normalize_opposite:
  assumes "0 < k"
  shows "normalize (multiplyScalar d (- k)) = multiplyScalar (normalize d) (- 1)"
proof (cases "d = (0, 0, 0)")
  case True
  then show ?thesis
    by (simp add: multiplyScalar_def normalize_zero)
next
  case False
  obtain a b c where d: "d = (a, b, c)" by (cases d)
  define l where "l = vlength d"
  have l0: "l \<noteq> 0" using False by (simp add: l_def vlength_zero_iff)
  have v: "vlength (multiplyScalar d (- k)) = k * l"
    using assms by (simp add: vlength_scaled l_def)
  have kl: "k * l \<noteq> 0" using assms l0 by simp
  have "normalize (multiplyScalar d (- k)) = (a * - k / (k * l), b * - k / (k * l), c * - k / (k * l))"
    using kl v d by (simp add: normalize_def Let_def multiplyScalar_def)
  also have "\<dots> = (- (a / l), - (b / l), - (c / l))"
    using assms l0 by simp
  also have "\<dots> = multiplyScalar (normalize d) (- 1)"
    using l0 d by (simp add: normalize_def Let_def multiplyScalar_def l_def)
  finally show ?thesis .
qed

lemma sub_after_push:
  "subVectors p (addScaledVector q (normalize (subVectors q p)) 0.8) =
     multiplyScalar (subVectors q p)
       (- (1 + 0.8 / (if vlength (subVectors q p) = 0 then 1 else vlength (subVectors q p))))"
proof -
  obtain px py pz where p: "p = (px, py, pz)" by (cases p)
  obtain qx qy qz where q: "q = (qx, qy, qz)" by (cases q)
  define k where "k = (if vlength (subVectors q p) = 0 then 1 else vlength (subVectors q p))"
  have k0: "k \<noteq> 0" by (simp add: k_def)
  have "subVectors p (addScaledVector q (normalize (subVectors q p)) 0.8) =
      (px - (qx + (qx - px) / k * 0.8), py - (qy + (qy - py) / k * 0.8),
       pz - (qz + (qz - pz) / k * 0.8))"
    unfolding k_def p q
    by (simp add: subVectors_def addScaledVector_def vadd_def multiplyScalar_def normalize_def
        Let_def)
  also have "\<dots> = ((qx - px) * - (1 + 0.8 / k), (qy - py) * - (1 + 0.8 / k),
       (qz - pz) * - (1 + 0.8 / k))"
    using k0 by (simp add: field_simps)
  also have "\<dots> = multiplyScalar (subVectors q p) (- (1 + 0.8 / k))"
    unfolding p q by (simp add: subVectors_def multiplyScalar_def)
  finally show ?thesis unfolding k_def .
qed

lemma back_direction:
  "normalize (subVectors p (addScaledVector q (normalize (subVectors q p)) 0.8)) =
     multiplyScalar (normalize (subVectors q p)) (- 1)"
proof -
  define k where "k = (if vlength (subVectors q p) = 0 then 1 else vlength (subVectors q p))"
  have "0 \<le> vlength (subVectors q p)"
    by (simp add: vlength_def lengthSq_nonneg)
  then have "0 < k" by (simp add: k_def)
  then have "0 < 1 + 0.8 / k" by (simp add: add_pos_pos)
  from normalize_opposite [OF this, of "subVectors q p"] show ?thesis
    unfolding sub_after_push k_def .
qed

lemma rival_side:
  assumes "overlapping (player g) (rivals g ! j)"
  shows "rivals (state_of (collideRival clock j g)) =
     (rivals g)[j := (rivals g ! j)\<lparr>e_position := addScaledVector (e_position (rivals g ! j))
                (normalize (subVectors (e_position (rivals g ! j)) (position (player g)))) 0.8,
              e_speed := e_speed (rivals g ! j) * (- 0.5)\<rparr>]"
  using assms
  by (simp add: collideRival_def EnemyCar_handleCollisionSimple_def
      Car_handleCollisionSimple_def handleCollisionWithObject_def applyDamage_def
      onDestroyed_def Let_def)

lemma player_side:
  assumes "overlapping (player g) (rivals g ! j)"
  shows "player (state_of (collideRival clock j g)) =
     fst (Car_handleCollisionSimple (clock j)
        (addScaledVector (e_position (rivals g ! j))
                (normalize (subVectors (e_position (rivals g ! j)) (position (player g)))) 0.8)
        (player g))"
  using assms
  by (simp add: collideRival_def EnemyCar_handleCollisionSimple_def
      Car_handleCollisionSimple_def handleCollisionWithObject_def applyDamage_def
      onDestroyed_def Let_def)

lemma push_back:
  "vadd p (multiplyScalar (multiplyScalar u (- 1)) 0.8) = addScaledVector p u (- 0.8)"
  by (cases p, cases u) (simp add: vadd_def multiplyScalar_def addScaledVector_def)

lemma back_direction_simp:
  "normalize (subVectors p (addScaledVector q (normalize (subVectors q p)) (4 / 5))) =
     multiplyScalar (normalize (subVectors q p)) (- 1)"
  using back_direction [of p q] by simp

lemma push_back_simp:
  "vadd p (multiplyScalar (multiplyScalar u (- 1)) (4 / 5)) = addScaledVector p u (- (4 / 5))"
  using push_back [of p u] by simp

lemma applyDamage_position:
  "position (fst (applyDamage amount c)) = position c"
  by (simp add: applyDamage_def onDestroyed_def Let_def)

lemma player_handled:
  "fst (Car_handleCollisionSimple now (addScaledVector q (normalize (subVectors q (position c))) 0.8) c) =
     (if now - lastCollisionTime c < 100 then c
      else (fst (applyDamage (\<bar>speed c\<bar> * 10) (c\<lparr>lastCollisionTime := now\<rparr>)))
             \<lparr>position := addScaledVector (position c) (normalize (subVectors q (position c))) (- 0.8),
               speed := speed (fst (applyDamage (\<bar>speed c\<bar> * 10) (c\<lparr>lastCollisionTime := now\<rparr>)))
                          * (- 0.5),
               carCameraShake := 0.8\<rparr>)"
  by (simp add: Car_handleCollisionSimple_def handleCollisionWithObject_def Let_def
      back_direction_simp applyDamage_position push_back_simp split_beta)

text \<open>
  What the missing \<open>playSound\<close> does to the pass: on overlap, a collision the player
  resolves throws, and one inside its debounce window does not.
\<close>

lemma collideRival_outcome:
  assumes "overlapping (player g) (rivals g ! j)"
  shows "(clock j - lastCollisionTime (player g) < 100 \<longrightarrow>
            (\<exists>g1. collideRival clock j g = Completed g1)) \<and>
         (\<not> clock j - lastCollisionTime (player g) < 100 \<longrightarrow>
            (\<exists>g1. collideRival clock j g = Threw g1))"
  using assms
  by (simp add: collideRival_def EnemyCar_handleCollisionSimple_def
      Car_handleCollisionSimple_def handleCollisionWithObject_def applyDamage_def
      onDestroyed_def Let_def)

lemma subVectors_self: "subVectors q q = (0, 0, 0)"
  by (cases q) (simp add: subVectors_def)

lemma subVectors_zero_iff: "subVectors q p = (0, 0, 0) \<longleftrightarrow> q = p"
  by (cases q, cases p) (auto simp: subVectors_def)

lemma addScaledVector_zero: "addScaledVector q (0, 0, 0) s = q"
  by (cases q) (simp add: addScaledVector_def vadd_def multiplyScalar_def)

lemma sqrt_sq: "0 \<le> a \<Longrightarrow> sqrt (a * a) = a"
  by simp

lemma sqrt_81_25: "sqrt (81 / 25) = 9 / 5"
  using sqrt_sq [of "9 / 5"] by simp

lemma sqrt_169_25: "sqrt (169 / 25) = 13 / 5"
  using sqrt_sq [of "13 / 5"] by simp

lemmas collision_defs = collideRival_def overlapping_def
      EnemyCar_handleCollisionSimple_def Car_handleCollisionSimple_def handleCollisionWithObject_def
      applyDamage_def onDestroyed_def playerRadius_def rivalRadius_def distanceTo_def
      distanceToSquared_def lengthSq_def vlength_def subVectors_def normalize_def
      addScaledVector_def vadd_def multiplyScalar_def

lemma first_collision:
  "collideRival (constant_clock 1000) 0 sample_game = Threw after_first"
  by (simp add: collision_defs after_first_def sample_game_def sample_rival_def constant_clock_def
      sample_enemy_config_def Car_new_def default_config_def Let_def sqrt_81_25)

lemma second_collision:
  "overlapping (player after_first) (rivals after_first ! 0) \<and>
   collideRival (constant_clock 1016) 0 after_first =
     Completed (after_first\<lparr>rivals := [sample_rival\<lparr>e_position := (2.6, 0, 0), e_speed := 0.05\<rparr>],
        cameraShake := 0.8\<rparr>)"
  by (simp add: collision_defs after_first_def sample_game_def sample_rival_def constant_clock_def
      sample_enemy_config_def Car_new_def default_config_def Let_def sqrt_169_25)

text \<open>
  C6, counterexample. The player (speed 1) and a rival one unit apart collide at time 1000:
  both are pushed, the player is damaged, and they still overlap (2.6 apart, radii 2 + 2).
  In the next frame, at time 1016, the rival is pushed again, to 2.6, while the player,
  inside its 100 ms debounce window, gets no correction and no damage.
\<close>

theorem debounced_player_not_corrected:
  "state_of (collideRival (constant_clock 1000) 0 sample_game) = after_first \<and>
   overlapping (player after_first) (rivals after_first ! 0) \<and>
   player (state_of (collideRival (constant_clock 1016) 0 after_first)) = player after_first \<and>
   e_position (rivals after_first ! 0) = (1.8, 0, 0) \<and>
   e_position (rivals (state_of (collideRival (constant_clock 1016) 0 after_first)) ! 0)
     = (2.6, 0, 0)"
proof -
  have a: "state_of (collideRival (constant_clock 1000) 0 sample_game) = after_first"
    by (simp add: first_collision)
  have b: "overlapping (player after_first) (rivals after_first ! 0)"
    using second_collision by simp
  have s: "state_of (collideRival (constant_clock 1016) 0 after_first) =
     after_first\<lparr>rivals := [sample_rival\<lparr>e_position := (2.6, 0, 0), e_speed := 0.05\<rparr>],
        cameraShake := 0.8\<rparr>"
    using second_collision by simp
  have c: "player (state_of (collideRival (constant_clock 1016) 0 after_first)) = player after_first"
    unfolding s by simp
  have d: "e_position (rivals after_first ! 0) = (1.8, 0, 0)"
    by (simp add: after_first_def)
  have e: "e_position (rivals (state_of (collideRival (constant_clock 1016) 0 after_first)) ! 0)
     = (2.6, 0, 0)"
    unfolding s by simp
  from a b c d e show ?thesis
    by (intro conjI)
qed

text \<open>
  C6, as amended. When the collision pass reaches rival \<open>j\<close> and its centre is closer to
  the player's than the sum of their radii: the rival's position gets 0.8 times the
  normalized vector from the player's position to its own, and its speed is multiplied by
  -0.5; a rival has no health and takes no damage. That vector has length 1 unless the two
  centres coincide; then it is zero and neither vehicle is moved. The player is left as it
  was when less than 100 ms have passed since its last resolved collision. Otherwise its
  position gets 0.8 times the opposite vector (from the rival's position to its own), its
  debounce time is set, and its health goes down by ten times its absolute speed (not below
  0) unless it is invulnerable.
\<close>

theorem rival_collision_resolution:
  assumes "j < length (rivals g)" "overlapping (player g) (rivals g ! j)"
  shows
    "rivals (state_of (collideRival clock j g)) ! j =
       (rivals g ! j)\<lparr>e_position := addScaledVector (e_position (rivals g ! j))
            (normalize (subVectors (e_position (rivals g ! j)) (position (player g)))) 0.8,
          e_speed := e_speed (rivals g ! j) * (- 0.5)\<rparr> \<and>
     (e_position (rivals g ! j) \<noteq> position (player g) \<longrightarrow>
        vlength (normalize (subVectors (e_position (rivals g ! j)) (position (player g)))) = 1) \<and>
     (e_position (rivals g ! j) = position (player g) \<longrightarrow>
        e_position (rivals (state_of (collideRival clock j g)) ! j) = e_position (rivals g ! j) \<and>
        position (player (state_of (collideRival clock j g))) = position (player g)) \<and>
     (clock j - lastCollisionTime (player g) < 100 \<longrightarrow>
        player (state_of (collideRival clock j g)) = player g) \<and>
     (\<not> clock j - lastCollisionTime (player g) < 100 \<longrightarrow>
        position (player (state_of (collideRival clock j g))) =
          addScaledVector (position (player g))
            (normalize (subVectors (e_position (rivals g ! j)) (position (player g)))) (- 0.8) \<and>
        lastCollisionTime (player (state_of (collideRival clock j g))) = clock j \<and>
        (invulnerable (player g) \<longrightarrow>
           health (player (state_of (collideRival clock j g))) = health (player g)) \<and>
        (\<not> invulnerable (player g) \<longrightarrow>
           health (player (state_of (collideRival clock j g))) =
             (if health (player g) - \<bar>speed (player g)\<bar> * 10 \<le> 0 then 0
              else health (player g) - \<bar>speed (player g)\<bar> * 10)))"
proof -
  let ?q = "e_position (rivals g ! j)"
  let ?p = "position (player g)"
  let ?u = "normalize (subVectors ?q ?p)"
  let ?g = "state_of (collideRival clock j g)"
  have r: "rivals ?g ! j = (rivals g ! j)\<lparr>e_position := addScaledVector ?q ?u 0.8,
          e_speed := e_speed (rivals g ! j) * (- 0.5)\<rparr>"
    using assms by (simp add: rival_side)
  have pl: "player ?g =
     (if clock j - lastCollisionTime (player g) < 100 then player g
      else (fst (applyDamage (\<bar>speed (player g)\<bar> * 10) ((player g)\<lparr>lastCollisionTime := clock j\<rparr>)))
             \<lparr>position := addScaledVector ?p ?u (- 0.8),
               speed := speed (fst (applyDamage (\<bar>speed (player g)\<bar> * 10)
                          ((player g)\<lparr>lastCollisionTime := clock j\<rparr>))) * (- 0.5),
               carCameraShake := 0.8\<rparr>)"
    using assms(2) by (simp only: player_side player_handled)
  have u1: "?q \<noteq> ?p \<longrightarrow> vlength ?u = 1"
    by (simp add: normalize_unit subVectors_zero_iff)
  have u0: "?q = ?p \<Longrightarrow> ?u = (0, 0, 0)"
    by (simp add: subVectors_self normalize_zero)
  have c: "?q = ?p \<longrightarrow> e_position (rivals ?g ! j) = ?q \<and> position (player ?g) = ?p"
  proof
    assume e: "?q = ?p"
    have "e_position (rivals ?g ! j) = ?q"
      unfolding r using u0 [OF e] by (simp add: addScaledVector_zero)
    moreover have "position (player ?g) = ?p"
      unfolding pl using u0 [OF e] by (simp add: addScaledVector_zero)
    ultimately show "e_position (rivals ?g ! j) = ?q \<and> position (player ?g) = ?p" by simp
  qed
  have d: "clock j - lastCollisionTime (player g) < 100 \<longrightarrow> player ?g = player g"
    unfolding pl by simp
  have n: "\<not> clock j - lastCollisionTime (player g) < 100 \<longrightarrow>
        position (player ?g) = addScaledVector ?p ?u (- 0.8) \<and>
        lastCollisionTime (player ?g) = clock j \<and>
        (invulnerable (player g) \<longrightarrow> health (player ?g) = health (player g)) \<and>
        (\<not> invulnerable (player g) \<longrightarrow>
           health (player ?g) =
             (if health (player g) - \<bar>speed (player g)\<bar> * 10 \<le> 0 then 0
              else health (player g) - \<bar>speed (player g)\<bar> * 10))"
    unfolding pl by (simp add: applyDamage_def onDestroyed_def Let_def)
  from r u1 c d n show ?thesis
    by (intro conjI)
qed

text \<open>The theorem on the first collision of the sample game.\<close>

theorem rival_collision_resolution_witness:
  "(0::nat) < length (rivals sample_game) \<and>
   overlapping (player sample_game) (rivals sample_game ! 0) \<and>
   e_position (rivals sample_game ! 0) \<noteq> position (player sample_game) \<and>
   \<not> constant_clock 1000 0 - lastCollisionTime (player sample_game) < 100 \<and>
   \<not> invulnerable (player sample_game) \<and>
   vlength (normalize (subVectors (e_position (rivals sample_game ! 0))
      (position (player sample_game)))) = 1 \<and>
   e_position (rivals (state_of (collideRival (constant_clock 1000) 0 sample_game)) ! 0)
     = (1.8, 0, 0) \<and>
   position (player (state_of (collideRival (constant_clock 1000) 0 sample_game))) = (- 0.8, 0, 0) \<and>
   health (player (state_of (collideRival (constant_clock 1000) 0 sample_game))) = 90"
proof -
  have h: "(0::nat) < length (rivals sample_game)"
    "overlapping (player sample_game) (rivals sample_game ! 0)"
    by (simp_all add: sample_game_def sample_rival_def sample_enemy_config_def Car_new_def
        default_config_def overlapping_def playerRadius_def rivalRadius_def distanceTo_def
        distanceToSquared_def lengthSq_def subVectors_def)
  have c: "e_position (rivals sample_game ! 0) \<noteq> position (player sample_game)"
    "\<not> constant_clock 1000 0 - lastCollisionTime (player sample_game) < 100"
    "\<not> invulnerable (player sample_game)"
    by (simp_all add: sample_game_def constant_clock_def Car_new_def)
  from rival_collision_resolution [OF h, of "constant_clock 1000"] c
  have u: "vlength (normalize (subVectors (e_position (rivals sample_game ! 0))
      (position (player sample_game)))) = 1"
    by blast
  have v: "e_position (rivals (state_of (collideRival (constant_clock 1000) 0 sample_game)) ! 0)
     = (1.8, 0, 0)"
    "position (player (state_of (collideRival (constant_clock 1000) 0 sample_game))) = (- 0.8, 0, 0)"
    "health (player (state_of (collideRival (constant_clock 1000) 0 sample_game))) = 90"
    by (simp_all add: first_collision after_first_def)
  from h c u v show ?thesis
    by (intro conjI)
qed

end
